theory Spec2Isabelle
  imports Complex_Main
begin

section \<open>The grading pipeline of \<^verbatim>\<open>backend/controllers/gradingController.js\<close>\<close>

text \<open>
  The development embeds the check-first version of the controller (the first
  \<^verbatim>\<open>gradeSubmission\<close> of the file, with \<^verbatim>\<open>performCustomGrading\<close>,
  \<^verbatim>\<open>findCodeFiles\<close> and \<^verbatim>\<open>getGradingStatus\<close>).

  Conventions of the embedding:
  \<^item> a JavaScript number is a rational: the values are finite, and products and quotients
    are exact (no rounding of doubles, no NaN, no infinities; the one division the code
    makes is written out for a zero divisor);
  \<^item> a JavaScript string is a \<^typ>\<open>string\<close>, one character per code unit, over the
    8-bit range of the character type;
  \<^item> a value that may be \<^verbatim>\<open>undefined\<close> is an option, \<^term>\<open>None\<close> for
    \<^verbatim>\<open>undefined\<close>;
  \<^item> an exception is a value of type \<open>exn\<close>, and a function that can throw returns
    a sum with the exception on the left;
  \<^item> the store, the file system and the record of calls made to the outside are fields
    of an explicit state that every step returns updated.
\<close>

subsection \<open>JSON values and JavaScript's coercions\<close>

datatype json =
    JsNull
  | JsBool bool
  | JsNum rat
  | JsStr string
  | JsArr "json list"
  | JsObj "(string \<times> json) list"

text \<open>Truthiness of a value: what \<^verbatim>\<open>!v\<close> and \<^verbatim>\<open>v || d\<close> test.\<close>

fun truthy :: "json option \<Rightarrow> bool" where
  "truthy None = False"
| "truthy (Some JsNull) = False"
| "truthy (Some (JsBool b)) = b"
| "truthy (Some (JsNum n)) = (n \<noteq> 0)"
| "truthy (Some (JsStr s)) = (s \<noteq> [])"
| "truthy (Some (JsArr _)) = True"
| "truthy (Some (JsObj _)) = True"

text \<open>\<^verbatim>\<open>typeof v === 'string'\<close>.\<close>

fun is_string :: "json option \<Rightarrow> bool" where
  "is_string (Some (JsStr _)) = True"
| "is_string _ = False"

text \<open>The characters of a value that passed the \<^verbatim>\<open>typeof\<close> test.\<close>

fun str_of :: "json option \<Rightarrow> string" where
  "str_of (Some (JsStr s)) = s"
| "str_of _ = []"

text \<open>\<^verbatim>\<open>v || d\<close>, for a default \<open>d\<close> that is a JSON value.\<close>

definition js_or :: "json option \<Rightarrow> json \<Rightarrow> json" where
  "js_or v d = (case v of None \<Rightarrow> d | Some x \<Rightarrow> if truthy v then x else d)"

text \<open>
  \<^verbatim>\<open>s.trim()\<close>: the white space of ECMAScript that lies in the 8-bit range is TAB, LF,
  VT, FF, CR, the space and the no-break space.
\<close>

definition is_white_space :: "char \<Rightarrow> bool" where
  "is_white_space c = (of_char c \<in> {9, 10, 11, 12, 13, 32, 160 :: nat})"

definition trim :: "string \<Rightarrow> string" where
  "trim s = rev (dropWhile is_white_space (rev (dropWhile is_white_space s)))"

text \<open>
  Conversion to a string, as a template literal does it, of a value parsed from JSON: it
  throws a \<^verbatim>\<open>TypeError\<close> for an object with an own member \<^verbatim>\<open>toString\<close> (the
  member is not callable, and the inherited \<^verbatim>\<open>valueOf\<close> returns the object), and
  for an array one of whose elements it throws for (\<^verbatim>\<open>Array.prototype.join\<close> converts
  every element but \<^verbatim>\<open>null\<close>); it succeeds for everything else.
\<close>

fun to_string_throws :: "json \<Rightarrow> bool" where
  "to_string_throws (JsArr xs) = (\<exists>x \<in> set xs. to_string_throws x)"
| "to_string_throws (JsObj members) = (''toString'' \<in> fst ` set members)"
| "to_string_throws _ = False"

text \<open>Whether \<^verbatim>\<open>`${v || 'N/A'}`\<close> throws.\<close>

definition shown_throws :: "json option \<Rightarrow> bool" where
  "shown_throws v = (case v of None \<Rightarrow> False | Some x \<Rightarrow> truthy v \<and> to_string_throws x)"

subsection \<open>Numbers\<close>

text \<open>\<^verbatim>\<open>Math.round\<close>: the nearest integer, a half rounded towards plus infinity.\<close>

definition Math_round :: "rat \<Rightarrow> rat" where
  "Math_round x = of_int \<lfloor>x + 1 / 2\<rfloor>"

text \<open>Decimal digits of a natural number.\<close>

fun nat_digits :: "nat \<Rightarrow> string" where
  "nat_digits n =
     (if n < 10 then [char_of (48 + n)]
      else nat_digits (n div 10) @ [char_of (48 + n mod 10)])"

text \<open>
  \<^verbatim>\<open>x.toFixed(2)\<close>: the magnitude rounded to hundredths (a half rounded up), two
  decimals always printed, a minus sign for a negative \<open>x\<close>. (Below \<open>10\<^sup>2\<^sup>1\<close> in
  magnitude, where JavaScript prints an exponent instead.)
\<close>

definition toFixed2 :: "rat \<Rightarrow> string" where
  "toFixed2 x =
     (let n = nat \<lfloor>\<bar>x\<bar> * 100 + 1 / 2\<rfloor>;
          f = n mod 100
      in (if x < 0 then ''-'' else '''') @ nat_digits (n div 100) @ ''.''
           @ [char_of (48 + f div 10), char_of (48 + f mod 10)])"

subsection \<open>Status banding\<close>

text \<open>
  \<^verbatim>\<open>getGradingStatus(score, maxScore)\<close>. In JavaScript a division by zero gives plus
  infinity for a positive score (which is at least 90) and NaN or minus infinity
  otherwise (for which every comparison of the chain fails).
\<close>

definition getGradingStatus :: "rat \<Rightarrow> rat \<Rightarrow> string" where
  "getGradingStatus score maxScore =
     (if maxScore = 0 then (if 0 < score then ''Excellent'' else ''Unsatisfactory'')
      else
        (let percentage = (score / maxScore) * 100 in
         if percentage \<ge> 90 then ''Excellent''
         else if percentage \<ge> 80 then ''Good''
         else if percentage \<ge> 70 then ''Satisfactory''
         else if percentage \<ge> 60 then ''Needs Improvement''
         else ''Unsatisfactory''))"

subsection \<open>The code scanner\<close>

text \<open>
  A path is the list of its components, so \<^verbatim>\<open>path.join(dir, name)\<close> is
  \<^term>\<open>dir @ [name]\<close>. A directory entry is what \<^verbatim>\<open>readdir\<close> with
  \<^verbatim>\<open>withFileTypes\<close> tells of it: a regular file (with its content), a directory
  (with its entries, in the order \<^verbatim>\<open>readdir\<close> lists them), or anything else (a
  symbolic link, a socket), for which both \<^verbatim>\<open>isFile()\<close> and
  \<^verbatim>\<open>isDirectory()\<close> are false.
\<close>

type_synonym path = "string list"

datatype dirent =
    File string string
  | Dir string "dirent list"
  | Other string

definition codeExtensions :: "string list" where
  "codeExtensions =
     [''.js'', ''.jsx'', ''.ts'', ''.tsx'', ''.py'', ''.java'', ''.sol'', ''.rs'', ''.go'']"

definition ignoreDirs :: "string list" where
  "ignoreDirs = [''node_modules'', ''.git'', ''dist'', ''build'', ''__pycache__'', ''target'']"

text \<open>
  \<^verbatim>\<open>path.extname\<close> of Node.js on an entry name (a name holds no separator): the
  name from its last dot on; empty when there is no dot, when the last dot is the first
  character, and for the name of two dots.
\<close>

definition extname :: "string \<Rightarrow> string" where
  "extname name =
     (if CHR ''.'' \<notin> set name then []
      else
        (let after = rev (takeWhile (\<lambda>c. c \<noteq> CHR ''.'') (rev name));
             startDot = length name - length after - 1
         in if startDot = 0 \<or> name = ''..'' then [] else drop startDot name))"

text \<open>
  The inner function \<^verbatim>\<open>scan(dir)\<close> of \<^verbatim>\<open>findCodeFiles\<close>: the loop over the
  entries of \<open>dir\<close>, with the array \<^verbatim>\<open>files\<close> it pushes to passed along.
\<close>

fun scan :: "path \<Rightarrow> dirent list \<Rightarrow> path list \<Rightarrow> path list" where
  "scan dir [] files = files"
| "scan dir (Dir name sub # entries) files =
     (if name \<notin> set ignoreDirs
      then scan dir entries (scan (dir @ [name]) sub files)
      else scan dir entries files)"
| "scan dir (File name content # entries) files =
     (if extname name \<in> set codeExtensions
      then scan dir entries (files @ [dir @ [name]])
      else scan dir entries files)"
| "scan dir (Other name # entries) files = scan dir entries files"

definition findCodeFiles :: "path \<Rightarrow> dirent list \<Rightarrow> path list" where
  "findCodeFiles repoPath tree = scan repoPath tree []"

text \<open>
  What the scanner is compared with. \<open>walk\<close> lists the regular files of a tree in
  directory-traversal order (each directory's entries in their order, a subdirectory's
  files where the subdirectory stands), leaving out what lies under an excluded
  directory name; \<open>visible\<close> says the same of one relative path; \<open>prune\<close> empties
  the excluded directories; \<open>selected\<close> is the allow-list test on a path's last
  component.
\<close>

fun walk :: "path \<Rightarrow> dirent list \<Rightarrow> path list" where
  "walk dir [] = []"
| "walk dir (Dir name sub # entries) =
     (if name \<in> set ignoreDirs then [] else walk (dir @ [name]) sub) @ walk dir entries"
| "walk dir (File name content # entries) = (dir @ [name]) # walk dir entries"
| "walk dir (Other name # entries) = walk dir entries"

inductive visible :: "dirent list \<Rightarrow> path \<Rightarrow> bool" where
  here: "File name content \<in> set entries \<Longrightarrow> visible entries [name]"
| below: "Dir name sub \<in> set entries \<Longrightarrow> name \<notin> set ignoreDirs \<Longrightarrow> visible sub q
          \<Longrightarrow> visible entries (name # q)"

fun prune :: "dirent list \<Rightarrow> dirent list" where
  "prune [] = []"
| "prune (Dir name sub # entries) =
     Dir name (if name \<in> set ignoreDirs then [] else prune sub) # prune entries"
| "prune (e # entries) = e # prune entries"

definition selected :: "path \<Rightarrow> bool" where
  "selected p = (p \<noteq> [] \<and> extname (last p) \<in> set codeExtensions)"

subsection \<open>Exceptions, the stored reviews and the responses\<close>

text \<open>
  \<open>Error m\<close> is \<^verbatim>\<open>new Error(m)\<close> and every rejection of a collaborator, by its
  message; \<open>SyntaxError\<close> is what \<^verbatim>\<open>JSON.parse\<close> throws, \<open>TypeError\<close> what reading
  a property of \<^verbatim>\<open>null\<close> throws.
\<close>

datatype exn = Error string | SyntaxError | TypeError

text \<open>
  The text of a review is used through \<^verbatim>\<open>JSON.parse\<close> only, so a text is modelled by
  what the parser makes of it: \<open>JsonText v\<close> is a text that parses to \<open>v\<close>, the text
  \<^verbatim>\<open>JSON.stringify\<close> writes for \<open>v\<close>; \<open>PlainText t\<close> is a text that is not JSON.
\<close>

datatype review_text = JsonText json | PlainText string

fun JSON_parse :: "review_text \<Rightarrow> exn + json" where
  "JSON_parse (JsonText v) = Inr v"
| "JSON_parse (PlainText t) = Inl SyntaxError"

definition JSON_stringify :: "json \<Rightarrow> review_text" where
  "JSON_stringify v = JsonText v"

text \<open>
  \<^verbatim>\<open>v.results\<close> and \<^verbatim>\<open>v.summary\<close> on a parsed value: a \<^verbatim>\<open>TypeError\<close> on
  \<^verbatim>\<open>null\<close>, the member of an object, and \<^verbatim>\<open>undefined\<close> on an object without
  the member and on numbers, strings, booleans and arrays (none has a property of
  either name).
\<close>

fun get_prop :: "json \<Rightarrow> string \<Rightarrow> exn + json option" where
  "get_prop JsNull k = Inl TypeError"
| "get_prop (JsObj members) k = Inr (map_of members k)"
| "get_prop _ k = Inr None"

text \<open>
  A row of the \<^verbatim>\<open>review\<close> table. The column \<^verbatim>\<open>score\<close>, the string
  \<^verbatim>\<open>`${totalScore}/${maxScore}`\<close>, is kept as the two numbers it is printed from.
\<close>

record review =
  row_id :: nat
  row_repoName :: string
  row_branchName :: string
  row_studentName :: "string option"
  reviewContent :: review_text
  row_score :: "rat \<times> rat"
  row_status :: string
  createdAt :: nat

text \<open>What \<^verbatim>\<open>analyzeCodeWithCustomInstructions\<close> resolves to.\<close>

record ai_result =
  ai_score :: rat
  ai_feedback :: "string option"
  ai_passed :: "string list option"
  ai_errors :: "string list option"

text \<open>The object \<^verbatim>\<open>performCustomGrading\<close> returns, and the summary made of it.\<close>

record code_quality =
  cq_score :: rat
  cq_maxScore :: rat
  cq_feedback :: "string option"

record completeness_part =
  comp_score :: rat
  comp_maxScore :: rat
  comp_passed :: "string list"
  comp_errors :: "string list"

record grading_results =
  moduleName :: string
  totalScore :: rat
  maxTotalScore :: rat
  codeQuality :: code_quality
  completeness :: completeness_part
  filesAnalyzed :: nat
  customCriteria :: string

record summary_part =
  sm_totalScore :: rat
  sm_maxScore :: rat
  sm_percentage :: string
  sm_status :: string

text \<open>
  The JSON of these objects, as \<^verbatim>\<open>JSON.stringify\<close> and \<^verbatim>\<open>res.json\<close> write them:
  a member that is \<^verbatim>\<open>undefined\<close> is left out.
\<close>

definition results_json :: "grading_results \<Rightarrow> json" where
  "results_json g =
     JsObj
      [(''moduleName'', JsStr (moduleName g)),
       (''totalScore'', JsNum (totalScore g)),
       (''maxTotalScore'', JsNum (maxTotalScore g)),
       (''codeQuality'',
          JsObj ([(''score'', JsNum (cq_score (codeQuality g))),
                  (''maxScore'', JsNum (cq_maxScore (codeQuality g)))]
                 @ (case cq_feedback (codeQuality g) of
                      None \<Rightarrow> []
                    | Some f \<Rightarrow> [(''feedback'', JsStr f)]))),
       (''completeness'',
          JsObj [(''score'', JsNum (comp_score (completeness g))),
                 (''maxScore'', JsNum (comp_maxScore (completeness g))),
                 (''passed'', JsArr (map JsStr (comp_passed (completeness g)))),
                 (''errors'', JsArr (map JsStr (comp_errors (completeness g))))]),
       (''filesAnalyzed'', JsNum (of_nat (filesAnalyzed g))),
       (''customCriteria'', JsStr (customCriteria g))]"

definition summary_json :: "summary_part \<Rightarrow> json" where
  "summary_json m =
     JsObj
      [(''totalScore'', JsNum (sm_totalScore m)),
       (''maxScore'', JsNum (sm_maxScore m)),
       (''percentage'', JsStr (sm_percentage m)),
       (''status'', JsStr (sm_status m))]"

text \<open>
  The request body, after \<^verbatim>\<open>express.json()\<close>: the four members the handler reads.
\<close>

record body =
  repoName :: "json option"
  branchName :: "json option"
  studentName :: "json option"
  customInstructions :: "json option"

text \<open>The three responses: 400 with its error text, 200, and 500 with the exception
  caught and the time.\<close>

record ok_body =
  source :: string
  student :: json
  branch :: string
  repository :: string
  results :: "json option"
  summary :: "json option"
  reviewId :: nat
  resp_createdAt :: nat
  timestamp :: nat

datatype response =
    Response400 string
  | Response200 ok_body
  | Response500 exn nat

fun status :: "response \<Rightarrow> nat" where
  "status (Response400 _) = 400"
| "status (Response200 _) = 200"
| "status (Response500 _ _) = 500"

fun success :: "response \<Rightarrow> bool" where
  "success (Response200 _) = True"
| "success _ = False"

subsection \<open>The collaborators and the state\<close>

text \<open>
  What one invocation meets outside the controller: whether the store answers, the
  URL test and the clone of \<^verbatim>\<open>grading-engine/cloner\<close>, the answer of
  \<^verbatim>\<open>analyzeCodeWithCustomInstructions\<close>, whether the removal of the workspace
  succeeds, and the clock. A collaborator that rejects does so with a message.
\<close>

record env =
  find_error :: "string option"
  isValidGitHubUrl :: "string \<Rightarrow> bool"
  cloneRepo :: "string \<Rightarrow> json \<Rightarrow> string \<Rightarrow> string + (path \<times> dirent list)"
  analyzeCode :: "string \<Rightarrow> string \<Rightarrow> string \<Rightarrow> string + ai_result"
  create_error :: "string option"
  cleanup_error :: "string option"
  now :: nat

text \<open>The calls made to the outside, in the order they are made.\<close>

datatype event =
    EvFindFirst string string json
  | EvClone string json string
  | EvScan path
  | EvScore string string string
  | EvCreate
  | EvCleanup path

text \<open>
  The state: the rows of the \<^verbatim>\<open>review\<close> table in insertion order, the workspaces
  on disk with their trees, and the calls made so far.
\<close>

record state =
  store :: "review list"
  workspaces :: "(path \<times> dirent list) list"
  calls :: "event list"

definition record_call :: "event \<Rightarrow> state \<Rightarrow> state" where
  "record_call e s = s\<lparr>calls := calls s @ [e]\<rparr>"

definition path_exists :: "path \<Rightarrow> state \<Rightarrow> bool" where
  "path_exists p s = (p \<in> fst ` set (workspaces s))"

subsection \<open>The Result Store\<close>

text \<open>
  Modelled from the spec: the Prisma client and its schema are not part of the sources.
  The column \<^verbatim>\<open>studentName\<close> is a nullable string (spec, section 6), so a value of
  a filter or of a new row that is neither \<^verbatim>\<open>null\<close> nor a string is rejected by
  the client; \<^verbatim>\<open>findFirst\<close> with \<^verbatim>\<open>orderBy: { createdAt: 'desc' }\<close> returns
  the matching row of greatest \<^verbatim>\<open>createdAt\<close> (of several such rows, the one
  inserted first); \<^verbatim>\<open>create\<close> appends a row with a new id and the time of the
  clock.
\<close>

fun student_column :: "json \<Rightarrow> exn + string option" where
  "student_column JsNull = Inr None"
| "student_column (JsStr s) = Inr (Some s)"
| "student_column _ = Inl (Error ''Invalid value for studentName'')"

fun latest :: "review list \<Rightarrow> review option" where
  "latest [] = None"
| "latest (r # rs) =
     (case latest rs of
        None \<Rightarrow> Some r
      | Some m \<Rightarrow> if createdAt r < createdAt m then Some m else Some r)"

definition matching :: "string \<Rightarrow> string \<Rightarrow> string option \<Rightarrow> review \<Rightarrow> bool" where
  "matching repo br st r =
     (row_repoName r = repo \<and> row_branchName r = br \<and> row_studentName r = st)"

definition findFirst :: "env \<Rightarrow> string \<Rightarrow> string \<Rightarrow> json \<Rightarrow> review list \<Rightarrow> exn + review option" where
  "findFirst e repo br st rows =
     (case find_error e of
        Some msg \<Rightarrow> Inl (Error msg)
      | None \<Rightarrow>
         (case student_column st of
            Inl x \<Rightarrow> Inl x
          | Inr col \<Rightarrow> Inr (latest (filter (matching repo br col) rows))))"

definition fresh_id :: "review list \<Rightarrow> nat" where
  "fresh_id rows = Suc (fold max (map row_id rows) 0)"

definition create ::
  "env \<Rightarrow> string \<Rightarrow> string \<Rightarrow> json \<Rightarrow> review_text \<Rightarrow> rat \<times> rat \<Rightarrow> string \<Rightarrow> review list
     \<Rightarrow> exn + (review \<times> review list)" where
  "create e repo br st content sc stat rows =
     (case create_error e of
        Some msg \<Rightarrow> Inl (Error msg)
      | None \<Rightarrow>
         (case student_column st of
            Inl x \<Rightarrow> Inl x
          | Inr col \<Rightarrow>
             (let saved = \<lparr>row_id = fresh_id rows, row_repoName = repo, row_branchName = br,
                           row_studentName = col, reviewContent = content, row_score = sc,
                           row_status = stat, createdAt = now e\<rparr>
              in Inr (saved, rows @ [saved]))))"

subsection \<open>The Workspace Manager\<close>

text \<open>
  Modelled from the spec: \<^verbatim>\<open>cleanupRepo\<close> of \<^verbatim>\<open>grading-engine/cloner\<close> is not
  part of the sources. The spec's \<^verbatim>\<open>release(path)\<close> removes the path recursively
  and is a no-op on a path that does not exist; a release that fails throws, and is
  taken to leave the file system as it was.
\<close>

definition cleanupRepo :: "env \<Rightarrow> path \<Rightarrow> state \<Rightarrow> exn option \<times> state" where
  "cleanupRepo e p s =
     (case cleanup_error e of
        Some msg \<Rightarrow> (Some (Error msg), s)
      | None \<Rightarrow> (None, s\<lparr>workspaces := filter (\<lambda>w. fst w \<noteq> p) (workspaces s)\<rparr>))"

subsection \<open>\<^verbatim>\<open>performCustomGrading\<close>\<close>

text \<open>
  \<^verbatim>\<open>fs.readFile\<close> on a path below the workspace root, the path given relative to the
  root; \<^verbatim>\<open>path.relative\<close> of a path that extends the root, and its printed form.
\<close>

fun readFile :: "dirent list \<Rightarrow> path \<Rightarrow> exn + string" where
  "readFile [] p = Inl (Error ''ENOENT: no such file or directory'')"
| "readFile (File name content # entries) p =
     (if p = [name] then Inr content else readFile entries p)"
| "readFile (Dir name sub # entries) p =
     (case p of
        n # q \<Rightarrow> if n = name \<and> q \<noteq> [] then readFile sub q else readFile entries p
      | [] \<Rightarrow> readFile entries p)"
| "readFile (Other name # entries) p = readFile entries p"

definition relative :: "path \<Rightarrow> path \<Rightarrow> path" where
  "relative repoPath file = drop (length repoPath) file"

fun path_string :: "path \<Rightarrow> string" where
  "path_string [] = []"
| "path_string [n] = n"
| "path_string (n # q) = n @ ''/'' @ path_string q"

text \<open>The loop that concatenates the files, \<^verbatim>\<open>combinedCode\<close> passed along.\<close>

fun combine :: "path \<Rightarrow> dirent list \<Rightarrow> path list \<Rightarrow> string \<Rightarrow> exn + string" where
  "combine repoPath tree [] combinedCode = Inr combinedCode"
| "combine repoPath tree (file # rest) combinedCode =
     (case readFile tree (relative repoPath file) of
        Inl x \<Rightarrow> Inl x
      | Inr content \<Rightarrow>
          combine repoPath tree rest
            (combinedCode @ [CHR 0x0A, CHR 0x0A] @ ''// File: ''
               @ path_string (relative repoPath file) @ [CHR 0x0A] @ content))"

text \<open>The completeness sub-score, as the code computes it from the score of the service.\<close>

definition completeness_score :: "rat \<Rightarrow> rat" where
  "completeness_score score = (if score > 60 then 40 else Math_round (score * (4 / 10)))"

text \<open>The same sub-score in the words of the spec (section 4.4).\<close>

definition completeness_spec :: "rat \<Rightarrow> rat" where
  "completeness_spec score = (if score > 60 then 40 else min 40 (Math_round (score * (4 / 10))))"

definition grading_of :: "ai_result \<Rightarrow> nat \<Rightarrow> string \<Rightarrow> string \<Rightarrow> grading_results" where
  "grading_of aiResult n customInstr br =
     \<lparr>moduleName = ''Branch: '' @ br,
      totalScore = ai_score aiResult,
      maxTotalScore = 100,
      codeQuality = \<lparr>cq_score = ai_score aiResult, cq_maxScore = 100,
                     cq_feedback = ai_feedback aiResult\<rparr>,
      completeness = \<lparr>comp_score = completeness_score (ai_score aiResult), comp_maxScore = 40,
                      comp_passed = (case ai_passed aiResult of None \<Rightarrow> [] | Some l \<Rightarrow> l),
                      comp_errors = (case ai_errors aiResult of None \<Rightarrow> [] | Some l \<Rightarrow> l)\<rparr>,
      filesAnalyzed = n,
      customCriteria = take 200 customInstr @ ''...''\<rparr>"

definition performCustomGrading ::
  "env \<Rightarrow> path \<Rightarrow> string \<Rightarrow> string \<Rightarrow> state \<Rightarrow> (exn + grading_results) \<times> state" where
  "performCustomGrading e repoPath customInstr br s =
     (let s1 = record_call (EvScan repoPath) s in
      case map_of (workspaces s1) repoPath of
        None \<Rightarrow> (Inl (Error ''ENOENT: no such file or directory''), s1)
      | Some tree \<Rightarrow>
         (let codeFiles = findCodeFiles repoPath tree in
          if length codeFiles = 0
          then (Inl (Error ''No code files found in the repository''), s1)
          else
            (case combine repoPath tree codeFiles [] of
               Inl x \<Rightarrow> (Inl x, s1)
             | Inr combinedCode \<Rightarrow>
                (let s2 = record_call (EvScore combinedCode customInstr br) s1 in
                 case analyzeCode e combinedCode customInstr br of
                   Inl msg \<Rightarrow> (Inl (Error msg), s2)
                 | Inr aiResult \<Rightarrow>
                     (Inr (grading_of aiResult (length codeFiles) customInstr br), s2)))))"

subsection \<open>\<^verbatim>\<open>gradeSubmission\<close>\<close>

text \<open>The two tests of step 1 and the test of the instructions on a miss.\<close>

definition valid_name :: "json option \<Rightarrow> bool" where
  "valid_name v = (\<not> (\<not> truthy v \<or> \<not> is_string v))"

definition valid_instructions :: "json option \<Rightarrow> bool" where
  "valid_instructions v = (\<not> (\<not> truthy v \<or> \<not> is_string v \<or> trim (str_of v) = []))"

definition summary_of :: "grading_results \<Rightarrow> summary_part" where
  "summary_of g =
     \<lparr>sm_totalScore = totalScore g,
      sm_maxScore = maxTotalScore g,
      sm_percentage = toFixed2 ((totalScore g / maxTotalScore g) * 100),
      sm_status = getGradingStatus (totalScore g) (maxTotalScore g)\<rparr>"

definition content_json :: "grading_results \<Rightarrow> summary_part \<Rightarrow> json" where
  "content_json g m =
     JsObj
      [(''feedback'',
          js_or (map_option JsStr (cq_feedback (codeQuality g))) (JsStr ''No feedback available'')),
       (''results'', results_json g),
       (''summary'', summary_json m)]"

text \<open>
  The three lines that log the request (lines 33 to 35) convert
  \<^verbatim>\<open>repoName || 'N/A'\<close>, \<^verbatim>\<open>branchName || 'N/A'\<close> and
  \<^verbatim>\<open>studentName || 'N/A'\<close> to strings, inside the \<^verbatim>\<open>try\<close> block and
  before any test of the inputs; a conversion that throws ends the block.

  The \<^verbatim>\<open>try\<close> block ends with the response sent or the exception thrown, the
  value of \<^verbatim>\<open>clonedPath\<close>, and the state.
\<close>

definition logging_throws :: "body \<Rightarrow> bool" where
  "logging_throws req =
     (shown_throws (repoName req) \<or> shown_throws (branchName req) \<or> shown_throws (studentName req))"

definition try_block :: "env \<Rightarrow> body \<Rightarrow> state \<Rightarrow> (exn + response) \<times> path option \<times> state" where
  "try_block e req s =
     (if logging_throws req then (Inl TypeError, None, s)
      else if \<not> truthy (repoName req) \<or> \<not> is_string (repoName req)
      then (Inr (Response400 ''Invalid or missing repoName''), None, s)
      else if \<not> truthy (branchName req) \<or> \<not> is_string (branchName req)
      then (Inr (Response400 ''Invalid or missing branchName (Module)''), None, s)
      else
        (let repo = str_of (repoName req);
             br = str_of (branchName req);
             st = js_or (studentName req) JsNull;
             s1 = record_call (EvFindFirst repo br st) s
         in case findFirst e repo br st (store s1) of
              Inl x \<Rightarrow> (Inl x, None, s1)
            | Inr (Some existingReview) \<Rightarrow>
               (case JSON_parse (reviewContent existingReview) of
                  Inl x \<Rightarrow> (Inl x, None, s1)
                | Inr parsedContent \<Rightarrow>
                   (case get_prop parsedContent ''results'' of
                      Inl x \<Rightarrow> (Inl x, None, s1)
                    | Inr res \<Rightarrow>
                       (case get_prop parsedContent ''summary'' of
                          Inl x \<Rightarrow> (Inl x, None, s1)
                        | Inr summ \<Rightarrow>
                           (Inr (Response200
                                  \<lparr>source = ''database'',
                                   student = js_or (map_option JsStr (row_studentName existingReview))
                                               (JsStr ''Unknown''),
                                   branch = row_branchName existingReview,
                                   repository = row_repoName existingReview,
                                   results = res,
                                   summary = summ,
                                   reviewId = row_id existingReview,
                                   resp_createdAt = createdAt existingReview,
                                   timestamp = createdAt existingReview\<rparr>),
                            None, s1))))
            | Inr None \<Rightarrow>
               (if \<not> truthy (customInstructions req) \<or> \<not> is_string (customInstructions req)
                    \<or> trim (str_of (customInstructions req)) = []
                then (Inr (Response400 ''customInstructions required for new grading''), None, s1)
                else if \<not> isValidGitHubUrl e repo
                then (Inr (Response400 ''Invalid GitHub URL format''), None, s1)
                else
                  (let submitterName = js_or (studentName req) (JsStr ''submission'');
                       s2 = record_call (EvClone repo submitterName br) s1
                   in case cloneRepo e repo submitterName br of
                        Inl msg \<Rightarrow> (Inl (Error msg), None, s2)
                      | Inr (clonedPath, tree) \<Rightarrow>
                         (let s3 = s2\<lparr>workspaces := (clonedPath, tree) # workspaces s2\<rparr> in
                          case performCustomGrading e clonedPath
                                 (str_of (customInstructions req)) br s3 of
                            (Inl x, s4) \<Rightarrow> (Inl x, Some clonedPath, s4)
                          | (Inr gradingResults, s4) \<Rightarrow>
                             (let summ = summary_of gradingResults;
                                  s5 = record_call EvCreate s4
                              in case create e repo br (js_or (studentName req) JsNull)
                                        (JSON_stringify (content_json gradingResults summ))
                                        (sm_totalScore summ, sm_maxScore summ) ''COMPLETED''
                                        (store s5) of
                                   Inl x \<Rightarrow> (Inl x, Some clonedPath, s5)
                                 | Inr (savedReview, rows) \<Rightarrow>
                                    (Inr (Response200
                                           \<lparr>source = ''openai'',
                                            student = js_or (studentName req) (JsStr ''Unknown''),
                                            branch = br,
                                            repository = repo,
                                            results = Some (results_json gradingResults),
                                            summary = Some (summary_json summ),
                                            reviewId = row_id savedReview,
                                            resp_createdAt = createdAt savedReview,
                                            timestamp = now e\<rparr>),
                                     Some clonedPath, s5\<lparr>store := rows\<rparr>)))))))"

text \<open>
  The \<^verbatim>\<open>finally\<close> block: the removal of the workspace when \<^verbatim>\<open>clonedPath\<close> is
  set, an exception of the removal caught and logged.
\<close>

definition finally_block :: "env \<Rightarrow> path option \<Rightarrow> state \<Rightarrow> state" where
  "finally_block e clonedPath s =
     (case clonedPath of
        None \<Rightarrow> s
      | Some p \<Rightarrow> snd (cleanupRepo e p (record_call (EvCleanup p) s)))"

text \<open>
  The handler: the response is the one the \<^verbatim>\<open>try\<close> block sent, or the 500 of the
  \<^verbatim>\<open>catch\<close> block for the exception it threw; the \<^verbatim>\<open>finally\<close> block runs after
  either.
\<close>

definition gradeSubmission :: "env \<Rightarrow> body \<Rightarrow> state \<Rightarrow> response \<times> state" where
  "gradeSubmission e req s =
     (case try_block e req s of
        (outcome, clonedPath, s1) \<Rightarrow>
          ((case outcome of Inl x \<Rightarrow> Response500 x (now e) | Inr r \<Rightarrow> r),
           finally_block e clonedPath s1))"

text \<open>
  Names for the parts of an invocation that the properties speak of: the lookup of step 2
  and the call it makes, the call and the result of the clone, the condition under which
  the clone is reached (a miss with instructions and a recognised URL), the state in
  which \<^verbatim>\<open>performCustomGrading\<close> then starts, and the value of \<^verbatim>\<open>clonedPath\<close>
  when the \<^verbatim>\<open>try\<close> block ends.
\<close>

definition lookup :: "env \<Rightarrow> body \<Rightarrow> state \<Rightarrow> exn + review option" where
  "lookup e req s =
     findFirst e (str_of (repoName req)) (str_of (branchName req))
       (js_or (studentName req) JsNull) (store s)"

definition find_call :: "body \<Rightarrow> event" where
  "find_call req =
     EvFindFirst (str_of (repoName req)) (str_of (branchName req)) (js_or (studentName req) JsNull)"

definition clone_call :: "body \<Rightarrow> event" where
  "clone_call req =
     EvClone (str_of (repoName req)) (js_or (studentName req) (JsStr ''submission''))
       (str_of (branchName req))"

definition clone_result :: "env \<Rightarrow> body \<Rightarrow> string + (path \<times> dirent list)" where
  "clone_result e req =
     cloneRepo e (str_of (repoName req)) (js_or (studentName req) (JsStr ''submission''))
       (str_of (branchName req))"

definition reaches_clone :: "env \<Rightarrow> body \<Rightarrow> state \<Rightarrow> bool" where
  "reaches_clone e req s =
     (valid_name (repoName req) \<and> valid_name (branchName req) \<and> lookup e req s = Inr None
      \<and> valid_instructions (customInstructions req) \<and> isValidGitHubUrl e (str_of (repoName req)))"

definition cloned_state :: "body \<Rightarrow> path \<Rightarrow> dirent list \<Rightarrow> state \<Rightarrow> state" where
  "cloned_state req p tree s =
     (record_call (clone_call req) (record_call (find_call req) s))
       \<lparr>workspaces := (p, tree) # workspaces s\<rparr>"

definition clonedPath :: "env \<Rightarrow> body \<Rightarrow> state \<Rightarrow> path option" where
  "clonedPath e req s = fst (snd (try_block e req s))"

text \<open>The calls one invocation adds, and the scoring calls among a list of calls.\<close>

definition new_calls :: "env \<Rightarrow> body \<Rightarrow> state \<Rightarrow> event list" where
  "new_calls e req s = drop (length (calls s)) (calls (snd (gradeSubmission e req s)))"

fun is_score_call :: "event \<Rightarrow> bool" where
  "is_score_call (EvScore _ _ _) = True"
| "is_score_call _ = False"

fun is_cleanup_call :: "event \<Rightarrow> bool" where
  "is_cleanup_call (EvCleanup _) = True"
| "is_cleanup_call _ = False"

subsection \<open>A sample world\<close>

text \<open>
  The scenario of the spec (section 8): a first request for a repository of one student,
  an empty store, a clone that brings a small tree, a service that answers 85.
\<close>

definition sample_tree :: "dirent list" where
  "sample_tree =
     [File ''index.js'' ''let a = 1;'',
      Dir ''node_modules'' [File ''dep.js'' ''x''],
      Dir ''src'' [File ''README.md'' ''notes'', File ''main.py'' ''print(1)'', Other ''link.js''],
      File ''.js'' []]"

definition sample_env :: env where
  "sample_env =
     \<lparr>find_error = None,
      isValidGitHubUrl = (\<lambda>u. take 19 u = ''https://github.com/''),
      cloneRepo = (\<lambda>repo label br. Inr ([''tmp'', ''ws-1''], sample_tree)),
      analyzeCode = (\<lambda>code instr br.
         Inr \<lparr>ai_score = 85, ai_feedback = Some ''ok'', ai_passed = None, ai_errors = None\<rparr>),
      create_error = None,
      cleanup_error = None,
      now = 7\<rparr>"

definition sample_req :: body where
  "sample_req =
     \<lparr>repoName = Some (JsStr ''https://github.com/org/repo''),
      branchName = Some (JsStr ''module-02''),
      studentName = Some (JsStr ''alice''),
      customInstructions = Some (JsStr ''grade for correctness'')\<rparr>"

definition sample_state :: state where
  "sample_state = \<lparr>store = [], workspaces = [], calls = []\<rparr>"

text \<open>
  Two variations: a clone that brings documentation only, and a store that holds a row
  whose text is not JSON.
\<close>

definition docs_tree :: "dirent list" where
  "docs_tree = [File ''README.md'' ''# notes'']"

definition docs_env :: env where
  "docs_env = sample_env\<lparr>cloneRepo := (\<lambda>repo label br. Inr ([''tmp'', ''ws-2''], docs_tree))\<rparr>"

definition legacy_row :: review where
  "legacy_row =
     \<lparr>row_id = 3, row_repoName = ''https://github.com/org/repo'', row_branchName = ''module-02'',
      row_studentName = Some ''alice'', reviewContent = PlainText ''## Review: looks fine'',
      row_score = (0, 0), row_status = ''COMPLETED'', createdAt = 2\<rparr>"

definition legacy_state :: state where
  "legacy_state = \<lparr>store = [legacy_row], workspaces = [], calls = []\<rparr>"

text \<open>A store that holds, after that row, a row written as the handler writes them.\<close>

definition cached_row :: review where
  "cached_row =
     \<lparr>row_id = 4, row_repoName = ''https://github.com/org/repo'', row_branchName = ''module-02'',
      row_studentName = Some ''alice'',
      reviewContent = JsonText (JsObj [(''feedback'', JsStr ''fine''),
                                       (''results'', JsObj [(''totalScore'', JsNum 70)]),
                                       (''summary'', JsObj [(''status'', JsStr ''Satisfactory'')])]),
      row_score = (70, 100), row_status = ''COMPLETED'', createdAt = 5\<rparr>"

definition cached_state :: state where
  "cached_state = \<lparr>store = [legacy_row, cached_row], workspaces = [], calls = []\<rparr>"

text \<open>What \<^verbatim>\<open>performCustomGrading\<close> returns in the sample world.\<close>

definition sample_grading :: grading_results where
  "sample_grading =
     grading_of \<lparr>ai_score = 85, ai_feedback = Some ''ok'', ai_passed = None, ai_errors = None\<rparr>
       2 ''grade for correctness'' ''module-02''"

text \<open>A request whose repoName is an object with a member \<^verbatim>\<open>toString\<close>.\<close>

definition hostile_req :: body where
  "hostile_req = sample_req\<lparr>repoName := Some (JsObj [(''toString'', JsNum 1)])\<rparr>"

section \<open>Properties\<close>

declare nat_digits.simps [simp del]

subsection \<open>Status banding\<close>

text \<open>
  C5: the banding is a function of the score and the maximum alone, and for every score
  and every positive maximum, with percentage = score / maxScore * 100, it returns
  "Excellent" exactly when the percentage is at least 90, "Good" exactly from 80 up to
  90, "Satisfactory" exactly from 70 up to 80, "Needs Improvement" exactly from 60 up
  to 70 and "Unsatisfactory" exactly below 60; a percentage of exactly 90, 80, 70 or 60
  falls in the higher band.
\<close>

theorem getGradingStatus_bands:
  assumes "0 < maxScore" and "percentage = score / maxScore * 100"
  shows "(getGradingStatus score maxScore = ''Excellent'') = (90 \<le> percentage)
       \<and> (getGradingStatus score maxScore = ''Good'') = (80 \<le> percentage \<and> percentage < 90)
       \<and> (getGradingStatus score maxScore = ''Satisfactory'') = (70 \<le> percentage \<and> percentage < 80)
       \<and> (getGradingStatus score maxScore = ''Needs Improvement'') = (60 \<le> percentage \<and> percentage < 70)
       \<and> (getGradingStatus score maxScore = ''Unsatisfactory'') = (percentage < 60)"
  using assms by (simp add: getGradingStatus_def Let_def)

theorem getGradingStatus_bands_witness:
  "getGradingStatus 90 100 = ''Excellent'' \<and> getGradingStatus 80 100 = ''Good''
   \<and> getGradingStatus 70 100 = ''Satisfactory'' \<and> getGradingStatus 60 100 = ''Needs Improvement''
   \<and> getGradingStatus (5999 / 100) 100 = ''Unsatisfactory''"
proof -
  have pos: "(0::rat) < 100" by simp
  note b = getGradingStatus_bands [OF pos refl]
  have "getGradingStatus 90 100 = ''Excellent''" using b [of 90] by simp
  moreover have "getGradingStatus 80 100 = ''Good''" using b [of 80] by simp
  moreover have "getGradingStatus 70 100 = ''Satisfactory''" using b [of 70] by simp
  moreover have "getGradingStatus 60 100 = ''Needs Improvement''" using b [of 60] by simp
  moreover have "getGradingStatus (5999 / 100) 100 = ''Unsatisfactory''"
    using b [of "5999 / 100"] by simp
  ultimately show ?thesis by blast
qed

subsection \<open>The code scanner\<close>

lemma scan_walk: "scan dir entries files = files @ filter selected (walk dir entries)"
  by (induction dir entries files rule: scan.induct) (auto simp: selected_def)

lemma scan_prune: "scan dir (prune entries) files = scan dir entries files"
  by (induction dir entries files rule: scan.induct) auto

lemma visible_mono: "visible entries q \<Longrightarrow> visible (e # entries) q"
  by (induction rule: visible.induct) (auto intro: visible.intros)

lemma walk_sound: "p \<in> set (walk dir entries) \<Longrightarrow> \<exists>q. p = dir @ q \<and> visible entries q"
proof (induction dir entries arbitrary: p rule: walk.induct)
  case (1 dir)
  then show ?case by simp
next
  case (2 dir name sub entries)
  show ?case
  proof (cases "p \<in> set (walk dir entries)")
    case True
    with 2 show ?thesis by (blast intro: visible_mono)
  next
    case False
    with 2 have ex: "name \<notin> set ignoreDirs" and "p \<in> set (walk (dir @ [name]) sub)"
      by (auto split: if_splits)
    with 2 obtain q where "p = (dir @ [name]) @ q" "visible sub q" by blast
    then have "p = dir @ (name # q)" "visible (Dir name sub # entries) (name # q)"
      using ex by (auto intro: visible.below)
    then show ?thesis by blast
  qed
next
  case (3 dir name content entries)
  show ?case
  proof (cases "p = dir @ [name]")
    case True
    have "visible (File name content # entries) [name]"
      by (rule visible.here [of name content]) simp
    with True show ?thesis by blast
  next
    case False
    with 3 show ?thesis by (auto intro: visible_mono)
  qed
next
  case (4 dir name entries)
  then show ?case by (auto intro: visible_mono)
qed

lemma walk_file: "File name content \<in> set entries \<Longrightarrow> dir @ [name] \<in> set (walk dir entries)"
  by (induction dir entries rule: walk.induct) auto

lemma walk_dir:
  "Dir name sub \<in> set entries \<Longrightarrow> name \<notin> set ignoreDirs \<Longrightarrow> p \<in> set (walk (dir @ [name]) sub)
   \<Longrightarrow> p \<in> set (walk dir entries)"
  by (induction dir entries rule: walk.induct) auto

lemma walk_complete: "visible entries q \<Longrightarrow> dir @ q \<in> set (walk dir entries)"
proof (induction arbitrary: dir rule: visible.induct)
  case (here name content entries)
  then show ?case by (rule walk_file)
next
  case (below name sub entries q)
  from below.IH [of "dir @ [name]"] have "dir @ name # q \<in> set (walk (dir @ [name]) sub)"
    by simp
  with below.hyps show ?case by (blast intro: walk_dir)
qed

lemma visible_dirs: "visible entries q \<Longrightarrow> q \<noteq> [] \<and> set (butlast q) \<inter> set ignoreDirs = {}"
  by (induction rule: visible.induct) auto

lemma findCodeFiles_set:
  "(p \<in> set (findCodeFiles repoPath tree)) =
   (\<exists>q. p = repoPath @ q \<and> visible tree q \<and> extname (last q) \<in> set codeExtensions)"
proof
  assume "p \<in> set (findCodeFiles repoPath tree)"
  then have w: "p \<in> set (walk repoPath tree)" and sel: "selected p"
    by (simp_all add: findCodeFiles_def scan_walk)
  from walk_sound [OF w] obtain q where q: "p = repoPath @ q" "visible tree q" by blast
  then have "q \<noteq> []" using visible_dirs by blast
  with q sel show "\<exists>q. p = repoPath @ q \<and> visible tree q \<and> extname (last q) \<in> set codeExtensions"
    by (auto simp: selected_def)
next
  assume "\<exists>q. p = repoPath @ q \<and> visible tree q \<and> extname (last q) \<in> set codeExtensions"
  then obtain q where q: "p = repoPath @ q" "visible tree q" "extname (last q) \<in> set codeExtensions"
    by blast
  then have "q \<noteq> []" using visible_dirs by blast
  with q have "selected p" by (simp add: selected_def)
  moreover from q have "p \<in> set (walk repoPath tree)" by (simp add: walk_complete)
  ultimately show "p \<in> set (findCodeFiles repoPath tree)"
    by (simp add: findCodeFiles_def scan_walk)
qed

text \<open>
  C6: the scan never descends into a directory of an excluded name (emptying those
  directories changes nothing, and no selected path passes through one), selects a
  regular file reached otherwise exactly when its extension is on the allow-list, and
  returns the selected files in directory-traversal order, as a function of the tree.
\<close>

theorem findCodeFiles_exclusion_selection_order:
  "findCodeFiles repoPath (prune tree) = findCodeFiles repoPath tree
   \<and> (\<forall>q. repoPath @ q \<in> set (findCodeFiles repoPath tree)
          \<longrightarrow> q \<noteq> [] \<and> set (butlast q) \<inter> set ignoreDirs = {})
   \<and> (\<forall>p. (p \<in> set (findCodeFiles repoPath tree)) =
          (\<exists>q. p = repoPath @ q \<and> visible tree q \<and> extname (last q) \<in> set codeExtensions))
   \<and> findCodeFiles repoPath tree = filter selected (walk repoPath tree)"
proof -
  have "findCodeFiles repoPath (prune tree) = findCodeFiles repoPath tree"
    by (simp add: findCodeFiles_def scan_prune)
  moreover have "\<forall>q. repoPath @ q \<in> set (findCodeFiles repoPath tree)
          \<longrightarrow> q \<noteq> [] \<and> set (butlast q) \<inter> set ignoreDirs = {}"
    using findCodeFiles_set visible_dirs by (metis same_append_eq)
  moreover have "findCodeFiles repoPath tree = filter selected (walk repoPath tree)"
    by (simp add: findCodeFiles_def scan_walk)
  ultimately show ?thesis using findCodeFiles_set by blast
qed

theorem findCodeFiles_witness:
  "findCodeFiles [''ws''] (prune sample_tree) = [[''ws'', ''index.js''], [''ws'', ''src'', ''main.py'']]
   \<and> filter selected (walk [''ws''] sample_tree) = [[''ws'', ''index.js''], [''ws'', ''src'', ''main.py'']]
   \<and> [''ws'', ''node_modules'', ''dep.js''] \<notin> set (findCodeFiles [''ws''] sample_tree)
   \<and> visible sample_tree [''src'', ''main.py'']"
proof -
  have ev: "findCodeFiles [''ws''] sample_tree = [[''ws'', ''index.js''], [''ws'', ''src'', ''main.py'']]"
    by code_simp
  note t = findCodeFiles_exclusion_selection_order [of "[''ws'']" sample_tree]
  from t ev have "findCodeFiles [''ws''] (prune sample_tree) = [[''ws'', ''index.js''], [''ws'', ''src'', ''main.py'']]"
    by simp
  moreover from t ev have "filter selected (walk [''ws''] sample_tree) = [[''ws'', ''index.js''], [''ws'', ''src'', ''main.py'']]"
    by simp
  moreover from ev have "[''ws'', ''node_modules'', ''dep.js''] \<notin> set (findCodeFiles [''ws''] sample_tree)"
    by simp
  moreover have "visible sample_tree [''src'', ''main.py'']"
  proof -
    have "[''ws'', ''src'', ''main.py''] \<in> set (findCodeFiles [''ws''] sample_tree)" using ev by simp
    with t obtain q where "[''ws'', ''src'', ''main.py''] = [''ws''] @ q" "visible sample_tree q" by blast
    then show ?thesis by simp
  qed
  ultimately show ?thesis by blast
qed


subsection \<open>The paths through the handler\<close>

text \<open>
  One equation for each way through \<^verbatim>\<open>gradeSubmission\<close>: a conversion that
  throws while the request is logged, the two rejections of step 1, a lookup that fails,
  a hit, the two rejections on a miss, a clone that fails,
  and what follows a clone that succeeds.
\<close>

lemma store_record_call [simp]: "store (record_call ev s) = store s"
  and workspaces_record_call [simp]: "workspaces (record_call ev s) = workspaces s"
  and calls_record_call [simp]: "calls (record_call ev s) = calls s @ [ev]"
  by (simp_all add: record_call_def)

lemma valid_name_shown: "valid_name v \<Longrightarrow> \<not> shown_throws v"
  by (cases v rule: is_string.cases) (simp_all add: valid_name_def shown_throws_def)

lemma student_shown: "student_column (js_or st JsNull) = Inr col \<Longrightarrow> \<not> shown_throws st"
  by (cases st rule: truthy.cases) (auto simp: shown_throws_def js_or_def)

lemma lookup_Inr_logging:
  assumes "valid_name (repoName req)" "valid_name (branchName req)" "lookup e req s = Inr x"
  shows "\<not> logging_throws req"
proof -
  from assms(3) obtain col where "student_column (js_or (studentName req) JsNull) = Inr col"
    by (auto simp: lookup_def findFirst_def split: option.splits sum.splits)
  then show ?thesis
    using assms(1,2) by (simp add: logging_throws_def valid_name_shown student_shown)
qed

lemma reaches_clone_logging: "reaches_clone e req s \<Longrightarrow> \<not> logging_throws req"
  by (auto simp: reaches_clone_def dest: lookup_Inr_logging)

lemma grade_logging:
  "logging_throws req \<Longrightarrow> gradeSubmission e req s = (Response500 TypeError (now e), s)"
  by (simp add: gradeSubmission_def try_block_def finally_block_def)

lemma grade_invalid_repo:
  "\<not> logging_throws req \<Longrightarrow> \<not> valid_name (repoName req) \<Longrightarrow>
   gradeSubmission e req s = (Response400 ''Invalid or missing repoName'', s)"
  by (simp add: gradeSubmission_def try_block_def valid_name_def finally_block_def)

lemma grade_invalid_branch:
  "\<not> logging_throws req \<Longrightarrow> valid_name (repoName req) \<Longrightarrow> \<not> valid_name (branchName req) \<Longrightarrow>
   gradeSubmission e req s = (Response400 ''Invalid or missing branchName (Module)'', s)"
  by (simp add: gradeSubmission_def try_block_def valid_name_def finally_block_def)

lemma grade_lookup_fails:
  "\<not> logging_throws req \<Longrightarrow> valid_name (repoName req) \<Longrightarrow> valid_name (branchName req) \<Longrightarrow> lookup e req s = Inl x \<Longrightarrow>
   gradeSubmission e req s = (Response500 x (now e), record_call (find_call req) s)"
  by (simp add: gradeSubmission_def try_block_def valid_name_def finally_block_def lookup_def
      find_call_def Let_def)

lemma grade_hit:
  assumes "valid_name (repoName req)" "valid_name (branchName req)"
    and "lookup e req s = Inr (Some r)"
  shows "gradeSubmission e req s =
     ((case JSON_parse (reviewContent r) of
         Inl x \<Rightarrow> Response500 x (now e)
       | Inr parsedContent \<Rightarrow>
          (case get_prop parsedContent ''results'' of
             Inl x \<Rightarrow> Response500 x (now e)
           | Inr res \<Rightarrow>
              (case get_prop parsedContent ''summary'' of
                 Inl x \<Rightarrow> Response500 x (now e)
               | Inr summ \<Rightarrow>
                  Response200
                    \<lparr>source = ''database'',
                     student = js_or (map_option JsStr (row_studentName r)) (JsStr ''Unknown''),
                     branch = row_branchName r, repository = row_repoName r,
                     results = res, summary = summ, reviewId = row_id r,
                     resp_createdAt = createdAt r, timestamp = createdAt r\<rparr>))),
      record_call (find_call req) s)"
  using assms lookup_Inr_logging [OF assms]
  by (simp add: gradeSubmission_def try_block_def valid_name_def finally_block_def lookup_def
      find_call_def Let_def split: sum.splits)

lemma grade_miss_instructions:
  "valid_name (repoName req) \<Longrightarrow> valid_name (branchName req) \<Longrightarrow> lookup e req s = Inr None \<Longrightarrow>
   \<not> valid_instructions (customInstructions req) \<Longrightarrow>
   gradeSubmission e req s =
     (Response400 ''customInstructions required for new grading'', record_call (find_call req) s)"
  using lookup_Inr_logging [of req e s None]
  by (simp add: gradeSubmission_def try_block_def valid_name_def finally_block_def lookup_def
      find_call_def Let_def valid_instructions_def)

lemma grade_miss_url:
  "valid_name (repoName req) \<Longrightarrow> valid_name (branchName req) \<Longrightarrow> lookup e req s = Inr None \<Longrightarrow>
   valid_instructions (customInstructions req) \<Longrightarrow> \<not> isValidGitHubUrl e (str_of (repoName req)) \<Longrightarrow>
   gradeSubmission e req s =
     (Response400 ''Invalid GitHub URL format'', record_call (find_call req) s)"
  using lookup_Inr_logging [of req e s None]
  by (simp add: gradeSubmission_def try_block_def valid_name_def finally_block_def lookup_def
      find_call_def Let_def valid_instructions_def)

lemma grade_clone_fails:
  "reaches_clone e req s \<Longrightarrow> clone_result e req = Inl msg \<Longrightarrow>
   gradeSubmission e req s =
     (Response500 (Error msg) (now e), record_call (clone_call req) (record_call (find_call req) s))"
  using reaches_clone_logging [of e req s]
  by (simp add: gradeSubmission_def try_block_def valid_name_def finally_block_def lookup_def
      find_call_def Let_def valid_instructions_def reaches_clone_def clone_result_def clone_call_def)

lemma grade_cloned:
  assumes "reaches_clone e req s" "clone_result e req = Inr (p, tree)"
  shows "gradeSubmission e req s =
    (case performCustomGrading e p (str_of (customInstructions req)) (str_of (branchName req))
            (cloned_state req p tree s) of
       (Inl x, s4) \<Rightarrow> (Response500 x (now e), finally_block e (Some p) s4)
     | (Inr g, s4) \<Rightarrow>
        (case create e (str_of (repoName req)) (str_of (branchName req))
                (js_or (studentName req) JsNull)
                (JSON_stringify (content_json g (summary_of g)))
                (sm_totalScore (summary_of g), sm_maxScore (summary_of g)) ''COMPLETED''
                (store s4) of
           Inl x \<Rightarrow> (Response500 x (now e), finally_block e (Some p) (record_call EvCreate s4))
         | Inr (savedReview, rows) \<Rightarrow>
            (Response200
               \<lparr>source = ''openai'',
                student = js_or (studentName req) (JsStr ''Unknown''),
                branch = str_of (branchName req), repository = str_of (repoName req),
                results = Some (results_json g), summary = Some (summary_json (summary_of g)),
                reviewId = row_id savedReview, resp_createdAt = createdAt savedReview,
                timestamp = now e\<rparr>,
             finally_block e (Some p) ((record_call EvCreate s4)\<lparr>store := rows\<rparr>))))"
  using assms reaches_clone_logging [OF assms(1)]
  by (simp add: gradeSubmission_def try_block_def valid_name_def lookup_def
      find_call_def Let_def valid_instructions_def reaches_clone_def clone_result_def clone_call_def
      cloned_state_def split: sum.splits prod.splits)


lemma map_of_cloned [simp]: "map_of (workspaces (cloned_state req p tree s)) p = Some tree"
  by (simp add: cloned_state_def)

lemma pcg_cloned:
  "performCustomGrading e p ci br (cloned_state req p tree s) =
     (let s1 = record_call (EvScan p) (cloned_state req p tree s) in
      if findCodeFiles p tree = [] then (Inl (Error ''No code files found in the repository''), s1)
      else
        (case combine p tree (findCodeFiles p tree) [] of
           Inl x \<Rightarrow> (Inl x, s1)
         | Inr code \<Rightarrow>
            (case analyzeCode e code ci br of
               Inl msg \<Rightarrow> (Inl (Error msg), record_call (EvScore code ci br) s1)
             | Inr a \<Rightarrow>
                (Inr (grading_of a (length (findCodeFiles p tree)) ci br),
                 record_call (EvScore code ci br) s1))))"
  by (simp add: performCustomGrading_def Let_def split: sum.splits)

lemma pcg_state:
  assumes "performCustomGrading e p ci br s = (out, s')"
  shows "store s' = store s \<and> workspaces s' = workspaces s
       \<and> (calls s' = calls s @ [EvScan p] \<or> (\<exists>code. calls s' = calls s @ [EvScan p, EvScore code ci br]))"
  using assms
  by (auto simp: performCustomGrading_def Let_def split: sum.splits option.splits if_splits)

lemma pcg_result:
  assumes "performCustomGrading e p ci br s = (Inr g, s')"
  shows "\<exists>code a n. analyzeCode e code ci br = Inr a \<and> g = grading_of a n ci br
           \<and> calls s' = calls s @ [EvScan p, EvScore code ci br]"
  using assms
  by (auto simp: performCustomGrading_def Let_def split: sum.splits option.splits if_splits)

lemma finally_store [simp]: "store (finally_block e c s) = store s"
  by (simp add: finally_block_def cleanupRepo_def split: option.splits)

lemma finally_calls_Some [simp]: "calls (finally_block e (Some p) s) = calls s @ [EvCleanup p]"
  by (simp add: finally_block_def cleanupRepo_def split: option.splits)

lemma finally_None [simp]: "finally_block e None s = s"
  by (simp add: finally_block_def)

lemma finally_workspaces_Some:
  "workspaces (finally_block e (Some p) s) =
     (if cleanup_error e = None then filter (\<lambda>w. fst w \<noteq> p) (workspaces s) else workspaces s)"
  by (simp add: finally_block_def cleanupRepo_def split: option.splits)

lemma finally_removes:
  "cleanup_error e = None \<Longrightarrow> \<not> path_exists p (finally_block e (Some p) s)"
  by (auto simp: path_exists_def finally_workspaces_Some)

lemma latest_None: "(latest rs = None) = (rs = [])"
  by (induction rs) (auto split: option.splits)

lemma latest_mem: "latest rs = Some r \<Longrightarrow> r \<in> set rs \<and> (\<forall>r' \<in> set rs. createdAt r' \<le> createdAt r)"
proof (induction rs arbitrary: r)
  case Nil
  then show ?case by simp
next
  case (Cons a rs)
  show ?case
  proof (cases "latest rs")
    case None
    with Cons.prems show ?thesis by (simp add: latest_None)
  next
    case (Some m)
    with Cons.IH [of m] Cons.prems show ?thesis by (auto split: if_splits)
  qed
qed

lemma grade_paths
  [case_names logging repo branch lookup_error hit no_instr bad_url clone_error cloned]:
  obtains "logging_throws req"
  | "\<not> logging_throws req" "\<not> valid_name (repoName req)"
  | "\<not> logging_throws req" "valid_name (repoName req)" "\<not> valid_name (branchName req)"
  | x where "\<not> logging_throws req" "valid_name (repoName req)" "valid_name (branchName req)"
      "lookup e req s = Inl x"
  | r where "valid_name (repoName req)" "valid_name (branchName req)" "lookup e req s = Inr (Some r)"
  | "valid_name (repoName req)" "valid_name (branchName req)" "lookup e req s = Inr None"
      "\<not> valid_instructions (customInstructions req)"
  | "valid_name (repoName req)" "valid_name (branchName req)" "lookup e req s = Inr None"
      "valid_instructions (customInstructions req)" "\<not> isValidGitHubUrl e (str_of (repoName req))"
  | msg where "reaches_clone e req s" "clone_result e req = Inl msg"
  | p tree where "reaches_clone e req s" "clone_result e req = Inr (p, tree)"
proof (cases "logging_throws req")
  case True
  then show ?thesis by (rule that(1))
next
  case nothrow: False
  show ?thesis
  proof (cases "reaches_clone e req s")
    case True
    then show ?thesis
      by (cases "clone_result e req") (auto intro: that)
  next
    case False
    then show ?thesis
      unfolding reaches_clone_def
      using nothrow by (metis that(2-7) sum.exhaust option.exhaust)
  qed
qed

lemma clonedPath_eq:
  "clonedPath e req s =
     (if reaches_clone e req s
      then (case clone_result e req of Inl msg \<Rightarrow> None | Inr w \<Rightarrow> Some (fst w))
      else None)"
proof (cases "logging_throws req")
  case True
  then have "\<not> reaches_clone e req s" using reaches_clone_logging by blast
  with True show ?thesis by (simp add: clonedPath_def try_block_def)
next
  case False
  then show ?thesis
    by (auto simp: clonedPath_def try_block_def reaches_clone_def clone_result_def lookup_def
        valid_name_def valid_instructions_def Let_def
        split: sum.splits option.splits prod.splits)
qed

lemma calls_cloned_state [simp]:
  "calls (cloned_state req p tree s) = calls s @ [find_call req, clone_call req]"
  and store_cloned_state [simp]: "store (cloned_state req p tree s) = store s"
  and workspaces_cloned_state [simp]:
    "workspaces (cloned_state req p tree s) = (p, tree) # workspaces s"
  by (simp_all add: cloned_state_def)

lemma cloned_outcome:
  assumes "reaches_clone e req s" "clone_result e req = Inr (p, tree)"
  shows "\<exists>mid. new_calls e req s = [find_call req, clone_call req, EvScan p] @ mid @ [EvCleanup p]
           \<and> (mid = [] \<or> (\<exists>code. mid = [EvScore code (str_of (customInstructions req)) (str_of (branchName req))]
                  \<or> mid = [EvScore code (str_of (customInstructions req)) (str_of (branchName req)), EvCreate]))
           \<and> workspaces (snd (gradeSubmission e req s)) =
               (if cleanup_error e = None then filter (\<lambda>w. fst w \<noteq> p) (workspaces s)
                else (p, tree) # workspaces s)
           \<and> status (fst (gradeSubmission e req s)) \<noteq> 400"
proof -
  obtain out s4 where pcg: "performCustomGrading e p (str_of (customInstructions req))
      (str_of (branchName req)) (cloned_state req p tree s) = (out, s4)"
    by (cases "performCustomGrading e p (str_of (customInstructions req))
      (str_of (branchName req)) (cloned_state req p tree s)") blast
  note st = pcg_state [OF pcg]
  show ?thesis
  proof (cases out)
    case (Inl x)
    with pcg assms st show ?thesis
      by (auto simp: grade_cloned new_calls_def finally_workspaces_Some
          performCustomGrading_def Let_def split: sum.splits if_splits)
  next
    case (Inr g)
    with pcg pcg_result [of e p _ _ _ g s4] assms st show ?thesis
      by (auto simp: grade_cloned new_calls_def finally_workspaces_Some create_def Let_def
          split: sum.splits option.splits prod.splits)
  qed
qed

lemma try_block_cleanup_indep:
  "try_block (e\<lparr>cleanup_error := x\<rparr>) req s = try_block e req s"
proof -
  have f: "findFirst (e\<lparr>cleanup_error := x\<rparr>) = findFirst e"
    by (intro ext) (simp add: findFirst_def split: option.splits sum.splits)
  have c: "create (e\<lparr>cleanup_error := x\<rparr>) = create e"
    by (intro ext) (simp add: create_def split: option.splits sum.splits)
  have p: "performCustomGrading (e\<lparr>cleanup_error := x\<rparr>) = performCustomGrading e"
    by (intro ext) (simp add: performCustomGrading_def Let_def split: option.splits sum.splits)
  show ?thesis
    unfolding try_block_def f c p
    by (simp cong: if_cong sum.case_cong option.case_cong prod.case_cong)
qed

lemma uncloned_outcome:
  assumes "clonedPath e req s = None"
  shows "(new_calls e req s = [] \<or> new_calls e req s = [find_call req]
          \<or> new_calls e req s = [find_call req, clone_call req])
       \<and> workspaces (snd (gradeSubmission e req s)) = workspaces s
       \<and> store (snd (gradeSubmission e req s)) = store s"
proof (cases rule: grade_paths [where e = e and req = req and s = s])
  case logging
  then show ?thesis by (simp add: grade_logging new_calls_def)
next
  case repo
  then show ?thesis by (simp add: grade_invalid_repo new_calls_def)
next
  case branch
  then show ?thesis by (simp add: grade_invalid_branch new_calls_def)
next
  case (lookup_error x)
  then show ?thesis by (simp add: grade_lookup_fails new_calls_def)
next
  case (hit r)
  then show ?thesis by (simp add: grade_hit new_calls_def)
next
  case no_instr
  then show ?thesis by (simp add: grade_miss_instructions new_calls_def)
next
  case bad_url
  then show ?thesis by (simp add: grade_miss_url new_calls_def)
next
  case (clone_error msg)
  then show ?thesis by (simp add: grade_clone_fails new_calls_def)
next
  case (cloned p tree)
  with assms show ?thesis by (simp add: clonedPath_eq)
qed

subsection \<open>The sample world, run\<close>

lemma sample_files:
  "findCodeFiles [''tmp'', ''ws-1''] sample_tree
     = [[''tmp'', ''ws-1'', ''index.js''], [''tmp'', ''ws-1'', ''src'', ''main.py'']]"
  by code_simp

lemma sample_combine:
  "\<exists>code. combine [''tmp'', ''ws-1''] sample_tree
      [[''tmp'', ''ws-1'', ''index.js''], [''tmp'', ''ws-1'', ''src'', ''main.py'']] [] = Inr code"
  by (simp add: sample_tree_def relative_def)

lemma sample_valid:
  "valid_name (repoName (sample_req\<lparr>studentName := st\<rparr>))"
  "valid_name (branchName (sample_req\<lparr>studentName := st\<rparr>))"
  "valid_instructions (customInstructions (sample_req\<lparr>studentName := st\<rparr>))"
  "isValidGitHubUrl sample_env (str_of (repoName (sample_req\<lparr>studentName := st\<rparr>)))"
  by (simp_all add: sample_req_def sample_env_def valid_name_def valid_instructions_def
      trim_def is_white_space_def)

lemma sample_reaches:
  assumes "student_column (js_or st JsNull) = Inr col"
  shows "reaches_clone sample_env (sample_req\<lparr>studentName := st\<rparr>) sample_state"
    and "clone_result sample_env (sample_req\<lparr>studentName := st\<rparr>)
           = Inr ([''tmp'', ''ws-1''], sample_tree)"
proof -
  have "lookup sample_env (sample_req\<lparr>studentName := st\<rparr>) sample_state = Inr None"
    using assms by (simp add: lookup_def findFirst_def sample_env_def sample_state_def)
  then show "reaches_clone sample_env (sample_req\<lparr>studentName := st\<rparr>) sample_state"
    using sample_valid [of st] by (simp add: reaches_clone_def)
  show "clone_result sample_env (sample_req\<lparr>studentName := st\<rparr>)
           = Inr ([''tmp'', ''ws-1''], sample_tree)"
    by (simp add: clone_result_def sample_env_def)
qed

lemma sample_run:
  assumes "student_column (js_or st JsNull) = Inr col"
  shows "\<exists>b. fst (gradeSubmission sample_env (sample_req\<lparr>studentName := st\<rparr>) sample_state)
              = Response200 b \<and> source b = ''openai''
           \<and> results b = Some (results_json sample_grading)"
proof -
  note r = sample_reaches [OF assms]
  from sample_combine obtain code where
    c: "combine [''tmp'', ''ws-1''] sample_tree
      [[''tmp'', ''ws-1'', ''index.js''], [''tmp'', ''ws-1'', ''src'', ''main.py'']] [] = Inr code"
    by blast
  have a: "analyzeCode sample_env code i b
      = Inr \<lparr>ai_score = 85, ai_feedback = Some ''ok'', ai_passed = None, ai_errors = None\<rparr>"
    "create_error sample_env = None" for i b
    by (simp_all add: sample_env_def)
  have i: "str_of (customInstructions sample_req) = ''grade for correctness''"
    "str_of (branchName sample_req) = ''module-02''"
    by (simp_all add: sample_req_def)
  show ?thesis
    by (simp add: grade_cloned [OF r] pcg_cloned sample_files c a create_def assms Let_def
        sample_grading_def i numeral_2_eq_2 del: combine.simps)
qed

lemma sample_req_student: "sample_req\<lparr>studentName := Some (JsStr ''alice'')\<rparr> = sample_req"
  by (simp add: sample_req_def)

lemma sample_first_call:
  "\<exists>b. fst (gradeSubmission sample_env sample_req sample_state) = Response200 b
       \<and> source b = ''openai'' \<and> results b = Some (results_json sample_grading)"
  using sample_run [of "Some (JsStr ''alice'')" "Some ''alice''"]
  by (simp add: sample_req_student js_or_def)


subsection \<open>Release of the workspace\<close>

text \<open>
  C2: a workspace was created exactly when the clone was reached and succeeded. In every
  such invocation, whatever follows (success, no code files, a failure of the scoring
  service, a failure of the insert), the removal of the workspace is attempted, once and
  as the last call, and the path does not exist afterwards when that removal does not
  itself fail. When no workspace was created no removal is attempted. A failure of the
  removal changes neither the response nor the store.
\<close>

theorem workspace_release:
  "(clonedPath e req s = Some p) =
     (reaches_clone e req s \<and> (\<exists>tree. clone_result e req = Inr (p, tree)))
   \<and> (clonedPath e req s = Some p \<longrightarrow>
        (\<exists>before. new_calls e req s = before @ [EvCleanup p] \<and> \<not> list_ex is_cleanup_call before)
        \<and> (cleanup_error e = None \<longrightarrow> \<not> path_exists p (snd (gradeSubmission e req s))))
   \<and> (clonedPath e req s = None \<longrightarrow> \<not> list_ex is_cleanup_call (new_calls e req s))
   \<and> fst (gradeSubmission (e\<lparr>cleanup_error := x\<rparr>) req s) = fst (gradeSubmission e req s)
   \<and> store (snd (gradeSubmission (e\<lparr>cleanup_error := x\<rparr>) req s))
       = store (snd (gradeSubmission e req s))"
proof -
  have a: "(clonedPath e req s = Some p) =
     (reaches_clone e req s \<and> (\<exists>tree. clone_result e req = Inr (p, tree)))"
    by (auto simp: clonedPath_eq split: sum.splits)
  have b: "(\<exists>before. new_calls e req s = before @ [EvCleanup p] \<and> \<not> list_ex is_cleanup_call before)
        \<and> (cleanup_error e = None \<longrightarrow> \<not> path_exists p (snd (gradeSubmission e req s)))"
    if "clonedPath e req s = Some p"
  proof -
    from that a obtain tree where r: "reaches_clone e req s" "clone_result e req = Inr (p, tree)"
      by blast
    from cloned_outcome [OF r] obtain mid where
      m: "new_calls e req s = [find_call req, clone_call req, EvScan p] @ mid @ [EvCleanup p]"
        "mid = [] \<or> (\<exists>code. mid = [EvScore code (str_of (customInstructions req)) (str_of (branchName req))]
                  \<or> mid = [EvScore code (str_of (customInstructions req)) (str_of (branchName req)), EvCreate])"
        "workspaces (snd (gradeSubmission e req s)) =
               (if cleanup_error e = None then filter (\<lambda>w. fst w \<noteq> p) (workspaces s)
                else (p, tree) # workspaces s)"
      by blast
    have "new_calls e req s = ([find_call req, clone_call req, EvScan p] @ mid) @ [EvCleanup p]"
      using m(1) by simp
    moreover have "\<not> list_ex is_cleanup_call ([find_call req, clone_call req, EvScan p] @ mid)"
      using m(2) by (auto simp: find_call_def clone_call_def)
    moreover have "cleanup_error e = None \<longrightarrow> \<not> path_exists p (snd (gradeSubmission e req s))"
      using m(3) by (auto simp: path_exists_def)
    ultimately show ?thesis by blast
  qed
  have c: "\<not> list_ex is_cleanup_call (new_calls e req s)" if "clonedPath e req s = None"
    using uncloned_outcome [OF that] by (auto simp: find_call_def clone_call_def)
  have d: "fst (gradeSubmission (e\<lparr>cleanup_error := x\<rparr>) req s) = fst (gradeSubmission e req s)"
    by (simp add: gradeSubmission_def try_block_cleanup_indep split: prod.splits sum.splits)
  have f: "store (snd (gradeSubmission (e\<lparr>cleanup_error := x\<rparr>) req s))
       = store (snd (gradeSubmission e req s))"
    by (simp add: gradeSubmission_def try_block_cleanup_indep split: prod.splits)
  from a b c d f show ?thesis by blast
qed

theorem workspace_release_witness:
  "clonedPath sample_env sample_req sample_state = Some [''tmp'', ''ws-1'']
   \<and> (\<exists>before. new_calls sample_env sample_req sample_state = before @ [EvCleanup [''tmp'', ''ws-1'']]
         \<and> \<not> list_ex is_cleanup_call before)
   \<and> \<not> path_exists [''tmp'', ''ws-1''] (snd (gradeSubmission sample_env sample_req sample_state))
   \<and> fst (gradeSubmission (sample_env\<lparr>cleanup_error := Some ''EBUSY''\<rparr>) sample_req sample_state)
       = fst (gradeSubmission sample_env sample_req sample_state)
   \<and> clonedPath sample_env (sample_req\<lparr>repoName := None\<rparr>) sample_state = None
   \<and> \<not> list_ex is_cleanup_call (new_calls sample_env (sample_req\<lparr>repoName := None\<rparr>) sample_state)"
proof -
  have cp: "clonedPath sample_env sample_req sample_state = Some [''tmp'', ''ws-1'']"
    using sample_reaches [of "Some (JsStr ''alice'')" "Some ''alice''"]
    by (simp add: clonedPath_eq sample_req_student js_or_def)
  have ce: "cleanup_error sample_env = None"
    by (simp add: sample_env_def)
  have cn: "clonedPath sample_env (sample_req\<lparr>repoName := None\<rparr>) sample_state = None"
    by (simp add: clonedPath_eq reaches_clone_def valid_name_def)
  from workspace_release [of sample_env sample_req sample_state "[''tmp'', ''ws-1'']" "Some ''EBUSY''"]
    cp ce
  have "(\<exists>before. new_calls sample_env sample_req sample_state = before @ [EvCleanup [''tmp'', ''ws-1'']]
         \<and> \<not> list_ex is_cleanup_call before)
   \<and> \<not> path_exists [''tmp'', ''ws-1''] (snd (gradeSubmission sample_env sample_req sample_state))
   \<and> fst (gradeSubmission (sample_env\<lparr>cleanup_error := Some ''EBUSY''\<rparr>) sample_req sample_state)
       = fst (gradeSubmission sample_env sample_req sample_state)"
    by blast
  moreover from workspace_release [of sample_env "sample_req\<lparr>repoName := None\<rparr>" sample_state] cn
  have "\<not> list_ex is_cleanup_call (new_calls sample_env (sample_req\<lparr>repoName := None\<rparr>) sample_state)"
    by blast
  ultimately show ?thesis using cp cn by blast
qed

subsection \<open>No code files\<close>

text \<open>
  C7: on a miss that reaches the clone, when the scan of the cloned workspace selects no
  file the response is the 500 of the error "No code files found in the repository", no
  row is inserted, the calls made are the lookup, the clone, the scan and the removal
  of the workspace (no scoring call, no insert), and the workspace is gone afterwards
  when its removal does not itself fail.
\<close>

theorem empty_corpus:
  assumes "valid_name (repoName req)" "valid_name (branchName req)" "lookup e req s = Inr None"
    and "valid_instructions (customInstructions req)" "isValidGitHubUrl e (str_of (repoName req))"
    and "clone_result e req = Inr (p, tree)" "findCodeFiles p tree = []"
  shows "fst (gradeSubmission e req s)
           = Response500 (Error ''No code files found in the repository'') (now e)
       \<and> status (fst (gradeSubmission e req s)) = 500
       \<and> store (snd (gradeSubmission e req s)) = store s
       \<and> new_calls e req s = [find_call req, clone_call req, EvScan p, EvCleanup p]
       \<and> (cleanup_error e = None \<longrightarrow> \<not> path_exists p (snd (gradeSubmission e req s)))"
proof -
  from assms have r: "reaches_clone e req s" by (simp add: reaches_clone_def)
  have g: "gradeSubmission e req s =
      (Response500 (Error ''No code files found in the repository'') (now e),
       finally_block e (Some p) (record_call (EvScan p) (cloned_state req p tree s)))"
    using assms(7) by (simp add: grade_cloned [OF r assms(6)] pcg_cloned)
  show ?thesis
    by (simp add: g new_calls_def finally_removes)
qed

theorem empty_corpus_witness:
  "fst (gradeSubmission docs_env sample_req sample_state)
       = Response500 (Error ''No code files found in the repository'') 7
   \<and> store (snd (gradeSubmission docs_env sample_req sample_state)) = []
   \<and> new_calls docs_env sample_req sample_state
       = [find_call sample_req, clone_call sample_req, EvScan [''tmp'', ''ws-2''], EvCleanup [''tmp'', ''ws-2'']]
   \<and> \<not> path_exists [''tmp'', ''ws-2''] (snd (gradeSubmission docs_env sample_req sample_state))"
proof -
  have 1: "valid_name (repoName sample_req)" "valid_name (branchName sample_req)"
    "valid_instructions (customInstructions sample_req)"
    by code_simp+
  have 2: "lookup docs_env sample_req sample_state = Inr None" by code_simp
  have 3: "isValidGitHubUrl docs_env (str_of (repoName sample_req))" by code_simp
  have 4: "clone_result docs_env sample_req = Inr ([''tmp'', ''ws-2''], docs_tree)"
    by (simp add: clone_result_def docs_env_def)
  have 5: "findCodeFiles [''tmp'', ''ws-2''] docs_tree = []" by code_simp
  have 6: "cleanup_error docs_env = None" "now docs_env = 7" "store sample_state = []"
    by (simp_all add: docs_env_def sample_env_def sample_state_def)
  from empty_corpus [OF 1(1,2) 2 1(3) 3 4 5] 6 show ?thesis by simp
qed

subsection \<open>A stored text that is not JSON\<close>

text \<open>
  C10: when the lookup finds a record whose reviewContent is not valid JSON, the
  response is a 500 with success false (the SyntaxError of the parse), not the stored
  record, although the lookup succeeded.
\<close>

theorem unparsable_hit:
  assumes "valid_name (repoName req)" "valid_name (branchName req)"
    and "lookup e req s = Inr (Some r)" "reviewContent r = PlainText t"
  shows "gradeSubmission e req s = (Response500 SyntaxError (now e), record_call (find_call req) s)
       \<and> status (fst (gradeSubmission e req s)) = 500
       \<and> \<not> success (fst (gradeSubmission e req s))"
  using assms by (simp add: grade_hit)

theorem unparsable_hit_witness:
  "lookup sample_env sample_req legacy_state = Inr (Some legacy_row)
   \<and> status (fst (gradeSubmission sample_env sample_req legacy_state)) = 500
   \<and> \<not> success (fst (gradeSubmission sample_env sample_req legacy_state))"
proof -
  have 1: "valid_name (repoName sample_req)" "valid_name (branchName sample_req)"
    by code_simp+
  have 2: "lookup sample_env sample_req legacy_state = Inr (Some legacy_row)" by code_simp
  have 3: "reviewContent legacy_row = PlainText ''## Review: looks fine''"
    by (simp add: legacy_row_def)
  from unparsable_hit [OF 1 2 3] 2 show ?thesis by simp
qed

subsection \<open>What a successful call leaves in the store\<close>

lemma lookup_Some:
  assumes "lookup e req s = Inr (Some r)"
  shows "find_error e = None
       \<and> student_column (js_or (studentName req) JsNull) = Inr (row_studentName r)
       \<and> latest (filter (matching (str_of (repoName req)) (str_of (branchName req)) (row_studentName r))
             (store s)) = Some r"
proof -
  from assms obtain col where c: "find_error e = None"
      "student_column (js_or (studentName req) JsNull) = Inr col"
      "latest (filter (matching (str_of (repoName req)) (str_of (branchName req)) col) (store s)) = Some r"
    by (auto simp: lookup_def findFirst_def split: option.splits sum.splits)
  from latest_mem [OF c(3)] have "matching (str_of (repoName req)) (str_of (branchName req)) col r"
    by simp
  then have "row_studentName r = col" by (simp add: matching_def)
  with c show ?thesis by simp
qed

lemma lookup_None:
  assumes "lookup e req s = Inr None"
  shows "find_error e = None
       \<and> (\<exists>col. student_column (js_or (studentName req) JsNull) = Inr col
            \<and> filter (matching (str_of (repoName req)) (str_of (branchName req)) col) (store s) = [])"
  using assms
  by (auto simp: lookup_def findFirst_def latest_None split: option.splits sum.splits)

lemma lookup_most_recent:
  assumes "lookup e req s = Inr (Some r)"
  shows "r \<in> set (store s)
       \<and> row_repoName r = str_of (repoName req) \<and> row_branchName r = str_of (branchName req)
       \<and> student_column (js_or (studentName req) JsNull) = Inr (row_studentName r)
       \<and> (\<forall>r' \<in> set (store s).
            row_repoName r' = row_repoName r \<and> row_branchName r' = row_branchName r
            \<and> row_studentName r' = row_studentName r \<longrightarrow> createdAt r' \<le> createdAt r)"
proof -
  note l = lookup_Some [OF assms]
  from l latest_mem [of "filter (matching (str_of (repoName req)) (str_of (branchName req)) (row_studentName r)) (store s)" r]
  show ?thesis by (auto simp: matching_def)
qed

lemma lookup_by_key:
  assumes "repoName req2 = repoName req1" "branchName req2 = branchName req1"
    and "js_or (studentName req2) JsNull = js_or (studentName req1) JsNull"
  shows "lookup e req2 s = lookup e req1 s" and "find_call req2 = find_call req1"
  using assms by (simp_all add: lookup_def find_call_def)

lemma lookup_in_state:
  assumes "find_error e2 = None"
    and "student_column (js_or (studentName req) JsNull) = Inr col"
    and "latest (filter (matching (str_of (repoName req)) (str_of (branchName req)) col) (store s')) = Some r"
  shows "lookup e2 req s' = Inr (Some r)"
  using assms by (simp add: lookup_def findFirst_def)

lemma success_leaves_record:
  assumes "fst (gradeSubmission e req s) = Response200 b"
  shows "valid_name (repoName req) \<and> valid_name (branchName req)
       \<and> (\<exists>r v col. student_column (js_or (studentName req) JsNull) = Inr col
            \<and> latest (filter (matching (str_of (repoName req)) (str_of (branchName req)) col)
                  (store (snd (gradeSubmission e req s)))) = Some r
            \<and> reviewContent r = JsonText v
            \<and> get_prop v ''results'' = Inr (results b) \<and> get_prop v ''summary'' = Inr (summary b)
            \<and> row_id r = reviewId b)"
proof (cases rule: grade_paths [where e = e and req = req and s = s])
  case logging
  with assms show ?thesis by (simp add: grade_logging)
next
  case repo
  with assms show ?thesis by (simp add: grade_invalid_repo)
next
  case branch
  with assms show ?thesis by (simp add: grade_invalid_branch)
next
  case (lookup_error x)
  with assms show ?thesis by (simp add: grade_lookup_fails)
next
  case (hit r)
  note l = lookup_Some [OF hit(3)]
  from assms hit obtain v where v: "reviewContent r = JsonText v"
    by (cases "reviewContent r") (simp_all add: grade_hit)
  with assms hit have "get_prop v ''results'' = Inr (results b) \<and> get_prop v ''summary'' = Inr (summary b)
      \<and> row_id r = reviewId b"
    by (auto simp: grade_hit split: sum.splits)
  moreover have "store (snd (gradeSubmission e req s)) = store s"
    using hit by (simp add: grade_hit)
  ultimately show ?thesis using hit l v by auto
next
  case no_instr
  with assms show ?thesis by (simp add: grade_miss_instructions)
next
  case bad_url
  with assms show ?thesis by (simp add: grade_miss_url)
next
  case (clone_error msg)
  with assms show ?thesis by (simp add: grade_clone_fails)
next
  case (cloned p tree)
  then have valid: "valid_name (repoName req)" "valid_name (branchName req)"
    and miss: "lookup e req s = Inr None"
    by (simp_all add: reaches_clone_def)
  from lookup_None [OF miss] obtain col where
    col: "student_column (js_or (studentName req) JsNull) = Inr col"
      "filter (matching (str_of (repoName req)) (str_of (branchName req)) col) (store s) = []"
    by blast
  obtain out s4 where pcg: "performCustomGrading e p (str_of (customInstructions req))
      (str_of (branchName req)) (cloned_state req p tree s) = (out, s4)"
    by (cases "performCustomGrading e p (str_of (customInstructions req))
      (str_of (branchName req)) (cloned_state req p tree s)") blast
  from pcg_state [OF pcg] have st4: "store s4 = store s" by simp
  from assms cloned pcg obtain g where g: "out = Inr g"
    by (cases out) (simp_all add: grade_cloned)
  define content where "content = content_json g (summary_of g)"
  define saved where "saved =
     \<lparr>row_id = fresh_id (store s), row_repoName = str_of (repoName req),
      row_branchName = str_of (branchName req), row_studentName = col,
      reviewContent = JsonText content,
      row_score = (sm_totalScore (summary_of g), sm_maxScore (summary_of g)),
      row_status = ''COMPLETED'', createdAt = now e\<rparr>"
  have cr: "create e (str_of (repoName req)) (str_of (branchName req)) (js_or (studentName req) JsNull)
        (JSON_stringify content) (sm_totalScore (summary_of g), sm_maxScore (summary_of g))
        ''COMPLETED'' (store s4)
      = (case create_error e of Some msg \<Rightarrow> Inl (Error msg)
         | None \<Rightarrow> Inr (saved, store s @ [saved]))"
    by (simp add: create_def col st4 saved_def JSON_stringify_def Let_def split: option.splits)
  from assms cloned pcg g cr have ce: "create_error e = None"
    by (cases "create_error e") (simp_all add: grade_cloned content_def)
  with assms cloned pcg g cr
  have b: "results b = Some (results_json g)" "summary b = Some (summary_json (summary_of g))"
      "reviewId b = row_id saved"
    and st: "store (snd (gradeSubmission e req s)) = store s @ [saved]"
    by (auto simp: grade_cloned content_def)
  have "matching (str_of (repoName req)) (str_of (branchName req)) col saved"
    by (simp add: matching_def saved_def)
  with col(2) st
  have "latest (filter (matching (str_of (repoName req)) (str_of (branchName req)) col)
                  (store (snd (gradeSubmission e req s)))) = Some saved"
    by simp
  moreover have "reviewContent saved = JsonText content" by (simp add: saved_def)
  moreover have "get_prop content ''results'' = Inr (results b)"
      "get_prop content ''summary'' = Inr (summary b)"
    by (simp_all add: content_def content_json_def b)
  ultimately have "student_column (js_or (studentName req) JsNull) = Inr col
            \<and> latest (filter (matching (str_of (repoName req)) (str_of (branchName req)) col)
                  (store (snd (gradeSubmission e req s)))) = Some saved
            \<and> reviewContent saved = JsonText content
            \<and> get_prop content ''results'' = Inr (results b) \<and> get_prop content ''summary'' = Inr (summary b)
            \<and> row_id saved = reviewId b"
    using col(1) b(3) by simp
  then show ?thesis using valid by blast
qed

lemma second_call_hits:
  assumes "fst (gradeSubmission e1 req1 s) = Response200 b1"
    and "repoName req2 = repoName req1" "branchName req2 = branchName req1"
    and "js_or (studentName req2) JsNull = js_or (studentName req1) JsNull"
    and "find_error e2 = None"
  shows "\<exists>b2. gradeSubmission e2 req2 (snd (gradeSubmission e1 req1 s))
              = (Response200 b2, record_call (find_call req2) (snd (gradeSubmission e1 req1 s)))
           \<and> source b2 = ''database'' \<and> results b2 = results b1 \<and> summary b2 = summary b1
           \<and> reviewId b2 = reviewId b1"
proof -
  from success_leaves_record [OF assms(1)] obtain r v col where
    valid: "valid_name (repoName req1)" "valid_name (branchName req1)"
    and col: "student_column (js_or (studentName req1) JsNull) = Inr col"
    and l: "latest (filter (matching (str_of (repoName req1)) (str_of (branchName req1)) col)
                  (store (snd (gradeSubmission e1 req1 s)))) = Some r"
    and v: "reviewContent r = JsonText v"
      "get_prop v ''results'' = Inr (results b1)" "get_prop v ''summary'' = Inr (summary b1)"
      "row_id r = reviewId b1"
    by blast
  have "lookup e2 req1 (snd (gradeSubmission e1 req1 s)) = Inr (Some r)"
    by (rule lookup_in_state [OF assms(5) col l])
  then have lk: "lookup e2 req2 (snd (gradeSubmission e1 req1 s)) = Inr (Some r)"
    using lookup_by_key(1) [OF assms(2-4)] by simp
  from valid assms(2,3) have valid2: "valid_name (repoName req2)" "valid_name (branchName req2)"
    by simp_all
  show ?thesis
    by (simp add: grade_hit [OF valid2 lk] v)
qed


lemma first_grading_row:
  assumes "fst (gradeSubmission e req s) = Response200 b" "source b = ''openai''"
  shows "\<exists>g row. store (snd (gradeSubmission e req s)) = store s @ [row]
          \<and> filter (matching (str_of (repoName req)) (str_of (branchName req)) (row_studentName row))
               (store s) = []
          \<and> student_column (js_or (studentName req) JsNull) = Inr (row_studentName row)
          \<and> row_repoName row = str_of (repoName req)
          \<and> row_branchName row = str_of (branchName req)
          \<and> reviewContent row = JsonText (content_json g (summary_of g))
          \<and> row_score row = (sm_totalScore (summary_of g), sm_maxScore (summary_of g))
          \<and> row_id row = reviewId b
          \<and> results b = Some (results_json g) \<and> summary b = Some (summary_json (summary_of g))"
proof (cases rule: grade_paths [where e = e and req = req and s = s])
  case logging
  with assms show ?thesis by (simp add: grade_logging)
next
  case repo
  with assms show ?thesis by (simp add: grade_invalid_repo)
next
  case branch
  with assms show ?thesis by (simp add: grade_invalid_branch)
next
  case (lookup_error x)
  with assms show ?thesis by (simp add: grade_lookup_fails)
next
  case (hit r)
  with assms show ?thesis by (auto simp: grade_hit split: sum.splits)
next
  case no_instr
  with assms show ?thesis by (simp add: grade_miss_instructions)
next
  case bad_url
  with assms show ?thesis by (simp add: grade_miss_url)
next
  case (clone_error msg)
  with assms show ?thesis by (simp add: grade_clone_fails)
next
  case (cloned p tree)
  then have miss: "lookup e req s = Inr None" by (simp add: reaches_clone_def)
  from lookup_None [OF miss] obtain col where
    col: "student_column (js_or (studentName req) JsNull) = Inr col"
      "filter (matching (str_of (repoName req)) (str_of (branchName req)) col) (store s) = []"
    by blast
  obtain out s4 where pcg: "performCustomGrading e p (str_of (customInstructions req))
      (str_of (branchName req)) (cloned_state req p tree s) = (out, s4)"
    by (cases "performCustomGrading e p (str_of (customInstructions req))
      (str_of (branchName req)) (cloned_state req p tree s)") blast
  from pcg_state [OF pcg] have st4: "store s4 = store s" by simp
  from assms cloned pcg obtain g where g: "out = Inr g"
    by (cases out) (simp_all add: grade_cloned)
  define saved where "saved =
     \<lparr>row_id = fresh_id (store s), row_repoName = str_of (repoName req),
      row_branchName = str_of (branchName req), row_studentName = col,
      reviewContent = JsonText (content_json g (summary_of g)),
      row_score = (sm_totalScore (summary_of g), sm_maxScore (summary_of g)),
      row_status = ''COMPLETED'', createdAt = now e\<rparr>"
  have cr: "create e (str_of (repoName req)) (str_of (branchName req)) (js_or (studentName req) JsNull)
        (JSON_stringify (content_json g (summary_of g)))
        (sm_totalScore (summary_of g), sm_maxScore (summary_of g))
        ''COMPLETED'' (store s4)
      = (case create_error e of Some msg \<Rightarrow> Inl (Error msg)
         | None \<Rightarrow> Inr (saved, store s @ [saved]))"
    by (simp add: create_def col st4 saved_def JSON_stringify_def Let_def split: option.splits)
  from assms cloned pcg g cr have ce: "create_error e = None"
    by (cases "create_error e") (simp_all add: grade_cloned)
  with assms cloned pcg g cr
  have b: "results b = Some (results_json g)" "summary b = Some (summary_json (summary_of g))"
      "reviewId b = row_id saved"
    and st: "store (snd (gradeSubmission e req s)) = store s @ [saved]"
    by (auto simp: grade_cloned)
  have "store (snd (gradeSubmission e req s)) = store s @ [saved]
          \<and> filter (matching (str_of (repoName req)) (str_of (branchName req)) (row_studentName saved))
               (store s) = []
          \<and> student_column (js_or (studentName req) JsNull) = Inr (row_studentName saved)
          \<and> row_repoName saved = str_of (repoName req)
          \<and> row_branchName saved = str_of (branchName req)
          \<and> reviewContent saved = JsonText (content_json g (summary_of g))
          \<and> row_score saved = (sm_totalScore (summary_of g), sm_maxScore (summary_of g))
          \<and> row_id saved = reviewId b
          \<and> results b = Some (results_json g) \<and> summary b = Some (summary_json (summary_of g))"
    using st col b by (simp add: saved_def)
  then show ?thesis by blast
qed

lemma stored_result:
  assumes "fst (gradeSubmission e1 req1 s) = Response200 b1"
    and "repoName req2 = repoName req1" "branchName req2 = branchName req1"
    and "js_or (studentName req2) JsNull = js_or (studentName req1) JsNull"
    and "find_error e2 = None"
  shows "\<exists>r v. r \<in> set (store (snd (gradeSubmission e1 req1 s)))
          \<and> row_repoName r = str_of (repoName req1) \<and> row_branchName r = str_of (branchName req1)
          \<and> student_column (js_or (studentName req1) JsNull) = Inr (row_studentName r)
          \<and> reviewContent r = JsonText v
          \<and> get_prop v ''results'' = Inr (results b1) \<and> get_prop v ''summary'' = Inr (summary b1)
          \<and> row_id r = reviewId b1
          \<and> lookup e2 req2 (snd (gradeSubmission e1 req1 s)) = Inr (Some r)
          \<and> valid_name (repoName req2) \<and> valid_name (branchName req2)
          \<and> (source b1 = ''openai'' \<longrightarrow>
                store (snd (gradeSubmission e1 req1 s)) = store s @ [r]
                \<and> (\<exists>g. v = content_json g (summary_of g)
                      \<and> row_score r = (sm_totalScore (summary_of g), sm_maxScore (summary_of g))
                      \<and> results b1 = Some (results_json g)
                      \<and> summary b1 = Some (summary_json (summary_of g))))"
proof -
  let ?s1 = "snd (gradeSubmission e1 req1 s)"
  let ?m = "matching (str_of (repoName req1)) (str_of (branchName req1))"
  from success_leaves_record [OF assms(1)] obtain r v col where
    valid: "valid_name (repoName req1)" "valid_name (branchName req1)"
    and col: "student_column (js_or (studentName req1) JsNull) = Inr col"
    and l: "latest (filter (?m col) (store ?s1)) = Some r"
    and v: "reviewContent r = JsonText v"
      "get_prop v ''results'' = Inr (results b1)" "get_prop v ''summary'' = Inr (summary b1)"
      "row_id r = reviewId b1"
    by blast
  from latest_mem [OF l] have mem: "r \<in> set (store ?s1)" and m: "?m col r" by simp_all
  from m have key: "row_repoName r = str_of (repoName req1)"
    "row_branchName r = str_of (branchName req1)" "row_studentName r = col"
    by (simp_all add: matching_def)
  have "lookup e2 req1 ?s1 = Inr (Some r)"
    by (rule lookup_in_state [OF assms(5) col l])
  then have lk: "lookup e2 req2 ?s1 = Inr (Some r)"
    using lookup_by_key(1) [OF assms(2-4)] by simp
  have new: "store ?s1 = store s @ [r]
                \<and> (\<exists>g. v = content_json g (summary_of g)
                      \<and> row_score r = (sm_totalScore (summary_of g), sm_maxScore (summary_of g))
                      \<and> results b1 = Some (results_json g)
                      \<and> summary b1 = Some (summary_json (summary_of g)))"
    if o: "source b1 = ''openai''"
  proof -
    from first_grading_row [OF assms(1) o] obtain g row where
      row: "store ?s1 = store s @ [row]"
        "filter (?m (row_studentName row)) (store s) = []"
        "student_column (js_or (studentName req1) JsNull) = Inr (row_studentName row)"
        "row_repoName row = str_of (repoName req1)" "row_branchName row = str_of (branchName req1)"
        "reviewContent row = JsonText (content_json g (summary_of g))"
        "row_score row = (sm_totalScore (summary_of g), sm_maxScore (summary_of g))"
        "results b1 = Some (results_json g)" "summary b1 = Some (summary_json (summary_of g))"
      by blast
    from row(3) col have c: "row_studentName row = col" by simp
    then have "?m col row" using row(4,5) by (simp add: matching_def)
    with row(1,2) c have "latest (filter (?m col) (store ?s1)) = Some row" by simp
    with l have "r = row" by simp
    with row v(1) show ?thesis by auto
  qed
  from mem key col v lk valid assms(2,3) new show ?thesis by auto
qed

lemma get_prop_nonnull: "v \<noteq> JsNull \<Longrightarrow> \<exists>x. get_prop v k = Inr x"
  by (cases v) simp_all

lemma js_or_falsy: "\<not> truthy v \<Longrightarrow> js_or v d = d"
  by (auto simp: js_or_def split: option.splits)

subsection \<open>The completeness sub-score\<close>

lemma Math_round_bound:
  assumes "\<not> 60 < score"
  shows "Math_round (score * (4 / 10)) \<le> 40"
proof -
  from assms have "score * (4 / 10) + 1 / 2 < 41" by simp
  then have "\<lfloor>score * (4 / 10) + 1 / 2\<rfloor> \<le> 40" by (simp add: floor_le_iff)
  then have "(of_int \<lfloor>score * (4 / 10) + 1 / 2\<rfloor> :: rat) \<le> of_int 40" by (simp only: of_int_le_iff)
  then show ?thesis by (simp add: Math_round_def)
qed

text \<open>
  C8: the completeness sub-score is a function of the score the service returned: 40
  when the score exceeds 60, and otherwise the rounded product of the score and 0.4,
  which is what the spec's minimum of 40 and that product comes to; its maximum is fixed
  at 40; and a run of \<^verbatim>\<open>performCustomGrading\<close> that returns a result has made
  one scoring call, whose answer the sub-score is computed from.
\<close>

theorem completeness_pure:
  "completeness_score score = completeness_spec score
   \<and> (60 < score \<longrightarrow> completeness_score score = 40)
   \<and> (\<not> 60 < score \<longrightarrow> completeness_score score = min 40 (Math_round (score * (4 / 10))))
   \<and> comp_score (completeness (grading_of a n ci br)) = completeness_score (ai_score a)
   \<and> comp_maxScore (completeness (grading_of a n ci br)) = 40
   \<and> (performCustomGrading e p ci br s = (Inr g, s') \<longrightarrow>
        (\<exists>a code. analyzeCode e code ci br = Inr a
           \<and> comp_score (completeness g) = completeness_score (ai_score a)
           \<and> comp_maxScore (completeness g) = 40
           \<and> filter is_score_call (calls s') = filter is_score_call (calls s) @ [EvScore code ci br]))"
proof -
  have 1: "completeness_score score = completeness_spec score"
    using Math_round_bound [of score]
    by (simp add: completeness_score_def completeness_spec_def min_absorb2)
  have 2: "60 < score \<longrightarrow> completeness_score score = 40"
    by (simp add: completeness_score_def)
  have 3: "\<not> 60 < score \<longrightarrow> completeness_score score = min 40 (Math_round (score * (4 / 10)))"
    using 1 by (simp add: completeness_spec_def)
  have 4: "comp_score (completeness (grading_of a n ci br)) = completeness_score (ai_score a)"
    "comp_maxScore (completeness (grading_of a n ci br)) = 40"
    by (simp_all add: grading_of_def)
  have 5: "\<exists>a code. analyzeCode e code ci br = Inr a
           \<and> comp_score (completeness g) = completeness_score (ai_score a)
           \<and> comp_maxScore (completeness g) = 40
           \<and> filter is_score_call (calls s') = filter is_score_call (calls s) @ [EvScore code ci br]"
    if "performCustomGrading e p ci br s = (Inr g, s')"
  proof -
    from pcg_result [OF that] obtain code a n where
      "analyzeCode e code ci br = Inr a" "g = grading_of a n ci br"
      "calls s' = calls s @ [EvScan p, EvScore code ci br]"
      by blast
    then show ?thesis by (auto simp: grading_of_def)
  qed
  from 1 2 3 4 5 show ?thesis by blast
qed

theorem completeness_pure_witness:
  "completeness_score 85 = 40 \<and> completeness_score 50 = 20 \<and> completeness_spec 50 = 20
   \<and> completeness_score (5 / 4) = 1 \<and> completeness_spec (- 10) = - 4
   \<and> (\<exists>g s'. performCustomGrading sample_env [''tmp'', ''ws-1''] ''rubric'' ''module-02''
                 (cloned_state sample_req [''tmp'', ''ws-1''] sample_tree sample_state) = (Inr g, s')
          \<and> comp_score (completeness g) = 40 \<and> comp_maxScore (completeness g) = 40)"
proof -
  have a: "completeness_spec 50 = 20" "completeness_spec (5 / 4) = 1" "completeness_spec (- 10) = - 4"
    by code_simp+
  note t = completeness_pure
  have 1: "completeness_score 85 = 40"
    using t [of 85, THEN conjunct2, THEN conjunct1] by simp
  have 2: "completeness_score 50 = 20"
    using t [of 50, THEN conjunct1] a by simp
  have 3: "completeness_score (5 / 4) = 1"
    using t [of "5 / 4", THEN conjunct1] a by simp
  from sample_combine obtain code where
    c: "combine [''tmp'', ''ws-1''] sample_tree
      [[''tmp'', ''ws-1'', ''index.js''], [''tmp'', ''ws-1'', ''src'', ''main.py'']] [] = Inr code"
    by blast
  have an: "analyzeCode sample_env x i b
      = Inr \<lparr>ai_score = 85, ai_feedback = Some ''ok'', ai_passed = None, ai_errors = None\<rparr>"
    for x i b
    by (simp add: sample_env_def)
  obtain g s' where run: "performCustomGrading sample_env [''tmp'', ''ws-1''] ''rubric'' ''module-02''
                 (cloned_state sample_req [''tmp'', ''ws-1''] sample_tree sample_state) = (Inr g, s')"
    by (simp add: pcg_cloned sample_files c an del: combine.simps)
  from completeness_pure [where e = sample_env and p = "[''tmp'', ''ws-1'']" and ci = "''rubric''"
      and br = "''module-02''"
      and s = "cloned_state sample_req [''tmp'', ''ws-1''] sample_tree sample_state"
      and g = g and s' = s'] run
  obtain r code where r: "analyzeCode sample_env code ''rubric'' ''module-02'' = Inr r"
    "comp_score (completeness g) = completeness_score (ai_score r)"
    "comp_maxScore (completeness g) = 40"
    by blast
  from r(1) have "ai_score r = 85" by (auto simp: an)
  with r 1 have "comp_score (completeness g) = 40" "comp_maxScore (completeness g) = 40"
    by simp_all
  with run have "\<exists>g s'. performCustomGrading sample_env [''tmp'', ''ws-1''] ''rubric'' ''module-02''
                 (cloned_state sample_req [''tmp'', ''ws-1''] sample_tree sample_state) = (Inr g, s')
          \<and> comp_score (completeness g) = 40 \<and> comp_maxScore (completeness g) = 40"
    by blast
  with 1 2 3 a show ?thesis by simp
qed

subsection \<open>The cache hit\<close>

text \<open>
  C1, as amended: for every key (repoName, branchName, studentName) whose repoName and
  branchName pass step 1 and for which the lookup succeeds and finds a record (the most
  recent one stored under the key) whose reviewContent is the JSON text of a value other
  than null, the response is a 200 tagged "database" that carries the members results and
  summary of that stored content unchanged, with the id, the repository, the branch, the
  student and the creation time of the record (the score column of the record and the
  other members of its content are not part of the response); the only call made is the
  lookup, and the store and the workspaces are as before (no workspace, no clone, no scan,
  no scoring call). Consequently, after a first call answered 200 from the scoring
  service, which appended a record whose score column is the totalScore and the maxScore
  of the summary it returned, a second call with the same request whose lookup succeeds
  finds that record and returns the results and the summary of the first answer tagged
  "database", and makes the lookup call only.
\<close>

theorem cache_hit:
  "(valid_name (repoName req) \<and> valid_name (branchName req) \<and> lookup e req s = Inr (Some r)
      \<and> reviewContent r = JsonText v \<and> v \<noteq> JsNull \<longrightarrow>
      r \<in> set (store s)
      \<and> row_repoName r = str_of (repoName req) \<and> row_branchName r = str_of (branchName req)
      \<and> student_column (js_or (studentName req) JsNull) = Inr (row_studentName r)
      \<and> (\<forall>r' \<in> set (store s).
            row_repoName r' = row_repoName r \<and> row_branchName r' = row_branchName r
            \<and> row_studentName r' = row_studentName r \<longrightarrow> createdAt r' \<le> createdAt r)
      \<and> (\<exists>res summ. get_prop v ''results'' = Inr res \<and> get_prop v ''summary'' = Inr summ
             \<and> fst (gradeSubmission e req s) =
                 Response200
                   \<lparr>source = ''database'',
                    student = js_or (map_option JsStr (row_studentName r)) (JsStr ''Unknown''),
                    branch = row_branchName r, repository = row_repoName r,
                    results = res, summary = summ, reviewId = row_id r,
                    resp_createdAt = createdAt r, timestamp = createdAt r\<rparr>)
      \<and> new_calls e req s = [find_call req]
      \<and> store (snd (gradeSubmission e req s)) = store s
      \<and> workspaces (snd (gradeSubmission e req s)) = workspaces s)
   \<and> (fst (gradeSubmission e1 req s) = Response200 b1 \<and> source b1 = ''openai''
        \<and> find_error e2 = None \<longrightarrow>
        (\<exists>g r b2. store (snd (gradeSubmission e1 req s)) = store s @ [r]
           \<and> reviewContent r = JsonText (content_json g (summary_of g))
           \<and> row_score r = (sm_totalScore (summary_of g), sm_maxScore (summary_of g))
           \<and> results b1 = Some (results_json g)
           \<and> summary b1 = Some (summary_json (summary_of g))
           \<and> lookup e2 req (snd (gradeSubmission e1 req s)) = Inr (Some r)
           \<and> fst (gradeSubmission e2 req (snd (gradeSubmission e1 req s))) = Response200 b2
           \<and> source b2 = ''database'' \<and> results b2 = results b1 \<and> summary b2 = summary b1
           \<and> reviewId b2 = reviewId b1 \<and> reviewId b2 = row_id r)
        \<and> new_calls e2 req (snd (gradeSubmission e1 req s)) = [find_call req]
        \<and> store (snd (gradeSubmission e2 req (snd (gradeSubmission e1 req s))))
            = store (snd (gradeSubmission e1 req s))
        \<and> workspaces (snd (gradeSubmission e2 req (snd (gradeSubmission e1 req s))))
            = workspaces (snd (gradeSubmission e1 req s)))"
proof -
  have hit: "r \<in> set (store s)
      \<and> row_repoName r = str_of (repoName req) \<and> row_branchName r = str_of (branchName req)
      \<and> student_column (js_or (studentName req) JsNull) = Inr (row_studentName r)
      \<and> (\<forall>r' \<in> set (store s).
            row_repoName r' = row_repoName r \<and> row_branchName r' = row_branchName r
            \<and> row_studentName r' = row_studentName r \<longrightarrow> createdAt r' \<le> createdAt r)
      \<and> (\<exists>res summ. get_prop v ''results'' = Inr res \<and> get_prop v ''summary'' = Inr summ
             \<and> fst (gradeSubmission e req s) =
                 Response200
                   \<lparr>source = ''database'',
                    student = js_or (map_option JsStr (row_studentName r)) (JsStr ''Unknown''),
                    branch = row_branchName r, repository = row_repoName r,
                    results = res, summary = summ, reviewId = row_id r,
                    resp_createdAt = createdAt r, timestamp = createdAt r\<rparr>)
      \<and> new_calls e req s = [find_call req]
      \<and> store (snd (gradeSubmission e req s)) = store s
      \<and> workspaces (snd (gradeSubmission e req s)) = workspaces s"
    if h: "valid_name (repoName req)" "valid_name (branchName req)" "lookup e req s = Inr (Some r)"
      "reviewContent r = JsonText v" "v \<noteq> JsNull"
  proof -
    from get_prop_nonnull [OF h(5)] obtain res summ where
      p: "get_prop v ''results'' = Inr res" "get_prop v ''summary'' = Inr summ"
      by blast
    have g: "gradeSubmission e req s =
       (Response200
          \<lparr>source = ''database'',
           student = js_or (map_option JsStr (row_studentName r)) (JsStr ''Unknown''),
           branch = row_branchName r, repository = row_repoName r,
           results = res, summary = summ, reviewId = row_id r,
           resp_createdAt = createdAt r, timestamp = createdAt r\<rparr>,
        record_call (find_call req) s)"
      by (simp add: grade_hit [OF h(1-3)] h(4) p)
    from lookup_most_recent [OF h(3)] show ?thesis
      by (simp add: g p new_calls_def)
  qed
  have again: "(\<exists>g r b2. store (snd (gradeSubmission e1 req s)) = store s @ [r]
           \<and> reviewContent r = JsonText (content_json g (summary_of g))
           \<and> row_score r = (sm_totalScore (summary_of g), sm_maxScore (summary_of g))
           \<and> results b1 = Some (results_json g)
           \<and> summary b1 = Some (summary_json (summary_of g))
           \<and> lookup e2 req (snd (gradeSubmission e1 req s)) = Inr (Some r)
           \<and> fst (gradeSubmission e2 req (snd (gradeSubmission e1 req s))) = Response200 b2
           \<and> source b2 = ''database'' \<and> results b2 = results b1 \<and> summary b2 = summary b1
           \<and> reviewId b2 = reviewId b1 \<and> reviewId b2 = row_id r)
        \<and> new_calls e2 req (snd (gradeSubmission e1 req s)) = [find_call req]
        \<and> store (snd (gradeSubmission e2 req (snd (gradeSubmission e1 req s))))
            = store (snd (gradeSubmission e1 req s))
        \<and> workspaces (snd (gradeSubmission e2 req (snd (gradeSubmission e1 req s))))
            = workspaces (snd (gradeSubmission e1 req s))"
    if h: "fst (gradeSubmission e1 req s) = Response200 b1" "source b1 = ''openai''"
      "find_error e2 = None"
  proof -
    from stored_result [OF h(1) refl refl refl h(3)] h(2) obtain r v g where
      r: "store (snd (gradeSubmission e1 req s)) = store s @ [r]"
        "reviewContent r = JsonText v" "v = content_json g (summary_of g)"
        "row_score r = (sm_totalScore (summary_of g), sm_maxScore (summary_of g))"
        "results b1 = Some (results_json g)" "summary b1 = Some (summary_json (summary_of g))"
        "row_id r = reviewId b1"
      and p: "get_prop v ''results'' = Inr (results b1)" "get_prop v ''summary'' = Inr (summary b1)"
      and lk: "lookup e2 req (snd (gradeSubmission e1 req s)) = Inr (Some r)"
      and valid: "valid_name (repoName req)" "valid_name (branchName req)"
      by blast
    define b2 where "b2 =
       \<lparr>source = ''database'',
        student = js_or (map_option JsStr (row_studentName r)) (JsStr ''Unknown''),
        branch = row_branchName r, repository = row_repoName r,
        results = results b1, summary = summary b1, reviewId = row_id r,
        resp_createdAt = createdAt r, timestamp = createdAt r\<rparr>"
    have g2: "gradeSubmission e2 req (snd (gradeSubmission e1 req s)) =
       (Response200 b2, record_call (find_call req) (snd (gradeSubmission e1 req s)))"
      by (simp add: grade_hit [OF valid lk] r(2) p b2_def)
    have "store (snd (gradeSubmission e1 req s)) = store s @ [r]
           \<and> reviewContent r = JsonText (content_json g (summary_of g))
           \<and> row_score r = (sm_totalScore (summary_of g), sm_maxScore (summary_of g))
           \<and> results b1 = Some (results_json g)
           \<and> summary b1 = Some (summary_json (summary_of g))
           \<and> lookup e2 req (snd (gradeSubmission e1 req s)) = Inr (Some r)
           \<and> fst (gradeSubmission e2 req (snd (gradeSubmission e1 req s))) = Response200 b2
           \<and> source b2 = ''database'' \<and> results b2 = results b1 \<and> summary b2 = summary b1
           \<and> reviewId b2 = reviewId b1 \<and> reviewId b2 = row_id r"
      using r lk by (simp add: g2) (simp add: b2_def)
    then have "\<exists>g r b2. store (snd (gradeSubmission e1 req s)) = store s @ [r]
           \<and> reviewContent r = JsonText (content_json g (summary_of g))
           \<and> row_score r = (sm_totalScore (summary_of g), sm_maxScore (summary_of g))
           \<and> results b1 = Some (results_json g)
           \<and> summary b1 = Some (summary_json (summary_of g))
           \<and> lookup e2 req (snd (gradeSubmission e1 req s)) = Inr (Some r)
           \<and> fst (gradeSubmission e2 req (snd (gradeSubmission e1 req s))) = Response200 b2
           \<and> source b2 = ''database'' \<and> results b2 = results b1 \<and> summary b2 = summary b1
           \<and> reviewId b2 = reviewId b1 \<and> reviewId b2 = row_id r"
      by blast
    then show ?thesis by (simp add: g2 new_calls_def)
  qed
  from hit again show ?thesis by blast
qed

text \<open>
  What the claim as stated misses. A record whose reviewContent is not JSON, or is the text
  \<^verbatim>\<open>null\<close>, is answered 500. The response to a hit is the same whatever the score column
  of the record and whatever the other members of its content. A lookup that fails is
  answered 500 although a record exists, also on the call after a first success. A key
  whose repoName is the empty string is answered 400 although a record is stored under it.
\<close>

theorem cache_hit_counterexample:
  "valid_name (repoName sample_req) \<and> valid_name (branchName sample_req)
   \<and> lookup sample_env sample_req legacy_state = Inr (Some legacy_row)
   \<and> legacy_row \<in> set (store legacy_state)
   \<and> fst (gradeSubmission sample_env sample_req legacy_state) = Response500 SyntaxError 7
   \<and> fst (gradeSubmission sample_env sample_req
            (legacy_state\<lparr>store := [legacy_row\<lparr>reviewContent := JsonText JsNull\<rparr>]\<rparr>))
       = Response500 TypeError 7
   \<and> success (fst (gradeSubmission sample_env sample_req
                     (cached_state\<lparr>store := [cached_row\<lparr>row_score := (1, 100)\<rparr>]\<rparr>)))
   \<and> fst (gradeSubmission sample_env sample_req
            (cached_state\<lparr>store := [cached_row\<lparr>row_score := (1, 100)\<rparr>]\<rparr>))
       = fst (gradeSubmission sample_env sample_req
               (cached_state\<lparr>store := [cached_row\<lparr>row_score := (99, 100)\<rparr>]\<rparr>))
   \<and> fst (gradeSubmission sample_env sample_req
            (cached_state\<lparr>store :=
               [cached_row\<lparr>reviewContent :=
                  JsonText (JsObj [(''feedback'', JsStr ''poor''),
                                   (''results'', JsObj [(''totalScore'', JsNum 70)]),
                                   (''summary'', JsObj [(''status'', JsStr ''Satisfactory'')])])\<rparr>]\<rparr>))
       = fst (gradeSubmission sample_env sample_req (cached_state\<lparr>store := [cached_row]\<rparr>))
   \<and> cached_row \<in> set (store cached_state)
   \<and> fst (gradeSubmission (sample_env\<lparr>find_error := Some ''connection lost''\<rparr>) sample_req
            cached_state)
       = Response500 (Error ''connection lost'') 7
   \<and> (\<exists>b1. fst (gradeSubmission sample_env sample_req sample_state) = Response200 b1
          \<and> source b1 = ''openai'')
   \<and> fst (gradeSubmission (sample_env\<lparr>find_error := Some ''connection lost''\<rparr>) sample_req
            (snd (gradeSubmission sample_env sample_req sample_state)))
       = Response500 (Error ''connection lost'') 7
   \<and> lookup sample_env (sample_req\<lparr>repoName := Some (JsStr [])\<rparr>)
         (cached_state\<lparr>store := [cached_row\<lparr>row_repoName := []\<rparr>]\<rparr>)
       = Inr (Some (cached_row\<lparr>row_repoName := []\<rparr>))
   \<and> fst (gradeSubmission sample_env (sample_req\<lparr>repoName := Some (JsStr [])\<rparr>)
            (cached_state\<lparr>store := [cached_row\<lparr>row_repoName := []\<rparr>]\<rparr>))
       = Response400 ''Invalid or missing repoName''"
proof -
  have v: "valid_name (repoName sample_req)" "valid_name (branchName sample_req)"
    "\<not> logging_throws sample_req"
    by code_simp+
  have k: "lookup sample_env (sample_req\<lparr>repoName := Some (JsStr [])\<rparr>)
         (cached_state\<lparr>store := [cached_row\<lparr>row_repoName := []\<rparr>]\<rparr>)
       = Inr (Some (cached_row\<lparr>row_repoName := []\<rparr>))"
    "fst (gradeSubmission sample_env (sample_req\<lparr>repoName := Some (JsStr [])\<rparr>)
            (cached_state\<lparr>store := [cached_row\<lparr>row_repoName := []\<rparr>]\<rparr>))
       = Response400 ''Invalid or missing repoName''"
    by code_simp+
  have l: "lookup sample_env sample_req legacy_state = Inr (Some legacy_row)"
    "legacy_row \<in> set (store legacy_state)" "cached_row \<in> set (store cached_state)"
    by code_simp+
  have a: "fst (gradeSubmission sample_env sample_req legacy_state) = Response500 SyntaxError 7"
    by code_simp
  have b: "fst (gradeSubmission sample_env sample_req
            (legacy_state\<lparr>store := [legacy_row\<lparr>reviewContent := JsonText JsNull\<rparr>]\<rparr>))
       = Response500 TypeError 7"
    by code_simp
  have c: "success (fst (gradeSubmission sample_env sample_req
                     (cached_state\<lparr>store := [cached_row\<lparr>row_score := (1, 100)\<rparr>]\<rparr>)))"
    "fst (gradeSubmission sample_env sample_req
            (cached_state\<lparr>store := [cached_row\<lparr>row_score := (1, 100)\<rparr>]\<rparr>))
       = fst (gradeSubmission sample_env sample_req
               (cached_state\<lparr>store := [cached_row\<lparr>row_score := (99, 100)\<rparr>]\<rparr>))"
    by code_simp+
  have d: "fst (gradeSubmission sample_env sample_req
            (cached_state\<lparr>store :=
               [cached_row\<lparr>reviewContent :=
                  JsonText (JsObj [(''feedback'', JsStr ''poor''),
                                   (''results'', JsObj [(''totalScore'', JsNum 70)]),
                                   (''summary'', JsObj [(''status'', JsStr ''Satisfactory'')])])\<rparr>]\<rparr>))
       = fst (gradeSubmission sample_env sample_req (cached_state\<lparr>store := [cached_row]\<rparr>))"
    by code_simp
  have f: "lookup (sample_env\<lparr>find_error := Some ''connection lost''\<rparr>) sample_req s
             = Inl (Error ''connection lost'')" for s
    by (simp add: lookup_def findFirst_def)
  have n: "now (sample_env\<lparr>find_error := Some ''connection lost''\<rparr>) = 7"
    by (simp add: sample_env_def)
  have g: "fst (gradeSubmission (sample_env\<lparr>find_error := Some ''connection lost''\<rparr>) sample_req s)
             = Response500 (Error ''connection lost'') 7" for s
    by (simp add: grade_lookup_fails [OF v(3) v(1) v(2) f] n)
  from sample_first_call have h: "\<exists>b1. fst (gradeSubmission sample_env sample_req sample_state)
      = Response200 b1 \<and> source b1 = ''openai''"
    by blast
  from v l a b c d g h k show ?thesis by simp
qed

theorem cache_hit_witness:
  "(\<exists>b. fst (gradeSubmission sample_env sample_req cached_state) = Response200 b
        \<and> source b = ''database''
        \<and> results b = Some (JsObj [(''totalScore'', JsNum 70)])
        \<and> summary b = Some (JsObj [(''status'', JsStr ''Satisfactory'')])
        \<and> reviewId b = 4 \<and> resp_createdAt b = 5)
   \<and> new_calls sample_env sample_req cached_state = [find_call sample_req]
   \<and> (\<exists>b1 b2 r. fst (gradeSubmission sample_env sample_req sample_state) = Response200 b1
        \<and> source b1 = ''openai'' \<and> results b1 = Some (results_json sample_grading)
        \<and> store (snd (gradeSubmission sample_env sample_req sample_state)) = [r]
        \<and> row_score r = (totalScore sample_grading, maxTotalScore sample_grading)
        \<and> fst (gradeSubmission sample_env sample_req
                 (snd (gradeSubmission sample_env sample_req sample_state))) = Response200 b2
        \<and> source b2 = ''database'' \<and> results b2 = Some (results_json sample_grading)
        \<and> summary b2 = summary b1 \<and> reviewId b2 = row_id r)
   \<and> new_calls sample_env sample_req (snd (gradeSubmission sample_env sample_req sample_state))
       = [find_call sample_req]"
proof -
  define v where "v = JsObj [(''feedback'', JsStr ''fine''),
                             (''results'', JsObj [(''totalScore'', JsNum 70)]),
                             (''summary'', JsObj [(''status'', JsStr ''Satisfactory'')])]"
  have h: "valid_name (repoName sample_req)" "valid_name (branchName sample_req)"
    "lookup sample_env sample_req cached_state = Inr (Some cached_row)"
    by code_simp+
  have c: "reviewContent cached_row = JsonText v" "v \<noteq> JsNull" "row_id cached_row = 4"
    "createdAt cached_row = 5"
    "get_prop v ''results'' = Inr (Some (JsObj [(''totalScore'', JsNum 70)]))"
    "get_prop v ''summary'' = Inr (Some (JsObj [(''status'', JsStr ''Satisfactory'')]))"
    by (simp_all add: cached_row_def v_def)
  from sample_first_call obtain b1 where
    r1: "fst (gradeSubmission sample_env sample_req sample_state) = Response200 b1"
      "source b1 = ''openai''" "results b1 = Some (results_json sample_grading)"
    by blast
  have fe: "find_error sample_env = None" by (simp add: sample_env_def)
  have e: "store sample_state = []" by (simp add: sample_state_def)
  note t = cache_hit [of sample_req sample_env cached_state cached_row v sample_env b1 sample_env]
  from t h c have "(\<exists>b. fst (gradeSubmission sample_env sample_req cached_state) = Response200 b
        \<and> source b = ''database''
        \<and> results b = Some (JsObj [(''totalScore'', JsNum 70)])
        \<and> summary b = Some (JsObj [(''status'', JsStr ''Satisfactory'')])
        \<and> reviewId b = 4 \<and> resp_createdAt b = 5)
     \<and> new_calls sample_env sample_req cached_state = [find_call sample_req]"
    by auto
  moreover from cache_hit [of sample_req sample_env sample_state cached_row v sample_env b1 sample_env]
    r1 fe obtain g r b2 where
    q: "store (snd (gradeSubmission sample_env sample_req sample_state)) = store sample_state @ [r]"
    "row_score r = (sm_totalScore (summary_of g), sm_maxScore (summary_of g))"
    "results b1 = Some (results_json g)"
    "fst (gradeSubmission sample_env sample_req
                 (snd (gradeSubmission sample_env sample_req sample_state))) = Response200 b2"
    "source b2 = ''database''" "results b2 = results b1" "summary b2 = summary b1"
    "reviewId b2 = row_id r"
    "new_calls sample_env sample_req (snd (gradeSubmission sample_env sample_req sample_state))
       = [find_call sample_req]"
    by blast
  from q(3) r1(3) have "results_json g = results_json sample_grading" by simp
  then have "totalScore g = totalScore sample_grading" "maxTotalScore g = maxTotalScore sample_grading"
    by (simp_all add: results_json_def)
  with q(2) have "row_score r = (totalScore sample_grading, maxTotalScore sample_grading)"
    by (simp add: summary_of_def)
  with q r1 e have "(\<exists>b1 b2 r. fst (gradeSubmission sample_env sample_req sample_state) = Response200 b1
        \<and> source b1 = ''openai'' \<and> results b1 = Some (results_json sample_grading)
        \<and> store (snd (gradeSubmission sample_env sample_req sample_state)) = [r]
        \<and> row_score r = (totalScore sample_grading, maxTotalScore sample_grading)
        \<and> fst (gradeSubmission sample_env sample_req
                 (snd (gradeSubmission sample_env sample_req sample_state))) = Response200 b2
        \<and> source b2 = ''database'' \<and> results b2 = Some (results_json sample_grading)
        \<and> summary b2 = summary b1 \<and> reviewId b2 = row_id r)
     \<and> new_calls sample_env sample_req (snd (gradeSubmission sample_env sample_req sample_state))
       = [find_call sample_req]"
    by auto
  ultimately show ?thesis by blast
qed

subsection \<open>The instructions and the key\<close>

text \<open>
  C3: the instructions are not part of the cache key. After a call that was answered 200,
  the store holds a record under the key of that call (repoName, branchName, and
  studentName or null) whose content has the results and the summary of that answer and
  whose id is the one it returned (the record that call appended, when it was answered
  from the scoring service). Any later request with the same repoName, the same
  branchName and the same student key whose lookup answers is a cache hit on that record,
  and this whatever instructions are put in their place, also none: the handler
  answers 200 tagged "database" with the record's id, repository, branch, student and
  creation time and with the results and the summary of the first answer, and the lookup,
  the same call for all of them, is the only call made.
\<close>

theorem instructions_not_in_key:
  assumes "fst (gradeSubmission e1 req1 s) = Response200 b1"
    and "repoName req2 = repoName req1" "branchName req2 = branchName req1"
    and "js_or (studentName req2) JsNull = js_or (studentName req1) JsNull"
    and "find_error e2 = None"
  shows "\<exists>r v b2. r \<in> set (store (snd (gradeSubmission e1 req1 s)))
          \<and> row_repoName r = str_of (repoName req1) \<and> row_branchName r = str_of (branchName req1)
          \<and> student_column (js_or (studentName req1) JsNull) = Inr (row_studentName r)
          \<and> reviewContent r = JsonText v
          \<and> get_prop v ''results'' = Inr (results b1) \<and> get_prop v ''summary'' = Inr (summary b1)
          \<and> row_id r = reviewId b1
          \<and> (source b1 = ''openai'' \<longrightarrow> store (snd (gradeSubmission e1 req1 s)) = store s @ [r])
          \<and> lookup e2 req2 (snd (gradeSubmission e1 req1 s)) = Inr (Some r)
          \<and> b2 = \<lparr>source = ''database'',
                  student = js_or (map_option JsStr (row_studentName r)) (JsStr ''Unknown''),
                  branch = row_branchName r, repository = row_repoName r,
                  results = results b1, summary = summary b1, reviewId = row_id r,
                  resp_createdAt = createdAt r, timestamp = createdAt r\<rparr>
          \<and> gradeSubmission e2 req2 (snd (gradeSubmission e1 req1 s))
              = (Response200 b2, record_call (find_call req1) (snd (gradeSubmission e1 req1 s)))
          \<and> new_calls e2 req2 (snd (gradeSubmission e1 req1 s)) = [find_call req1]
          \<and> (\<forall>ci. lookup e2 (req2\<lparr>customInstructions := ci\<rparr>) (snd (gradeSubmission e1 req1 s))
                     = Inr (Some r)
                \<and> gradeSubmission e2 (req2\<lparr>customInstructions := ci\<rparr>)
                     (snd (gradeSubmission e1 req1 s))
                   = (Response200 b2,
                      record_call (find_call req1) (snd (gradeSubmission e1 req1 s))))"
proof -
  let ?s1 = "snd (gradeSubmission e1 req1 s)"
  from stored_result [OF assms] obtain r v where
    r: "r \<in> set (store ?s1)"
      "row_repoName r = str_of (repoName req1)" "row_branchName r = str_of (branchName req1)"
      "student_column (js_or (studentName req1) JsNull) = Inr (row_studentName r)"
      "reviewContent r = JsonText v"
      "get_prop v ''results'' = Inr (results b1)" "get_prop v ''summary'' = Inr (summary b1)"
      "row_id r = reviewId b1"
    and lk: "lookup e2 req2 ?s1 = Inr (Some r)"
    and valid: "valid_name (repoName req2)" "valid_name (branchName req2)"
    and new: "source b1 = ''openai'' \<longrightarrow> store ?s1 = store s @ [r]"
    by blast
  define b2 where "b2 =
       \<lparr>source = ''database'',
        student = js_or (map_option JsStr (row_studentName r)) (JsStr ''Unknown''),
        branch = row_branchName r, repository = row_repoName r,
        results = results b1, summary = summary b1, reviewId = row_id r,
        resp_createdAt = createdAt r, timestamp = createdAt r\<rparr>"
  have fc: "find_call req2 = find_call req1"
    by (rule lookup_by_key(2) [OF assms(2-4)])
  have any: "lookup e2 (req2\<lparr>customInstructions := ci\<rparr>) ?s1 = Inr (Some r)
      \<and> gradeSubmission e2 (req2\<lparr>customInstructions := ci\<rparr>) ?s1
          = (Response200 b2, record_call (find_call req1) ?s1)" for ci
  proof -
    have k: "lookup e2 (req2\<lparr>customInstructions := ci\<rparr>) ?s1 = Inr (Some r)"
      using lk by (simp add: lookup_def)
    have f: "find_call (req2\<lparr>customInstructions := ci\<rparr>) = find_call req1"
      using fc by (simp add: find_call_def)
    have w: "valid_name (repoName (req2\<lparr>customInstructions := ci\<rparr>))"
      "valid_name (branchName (req2\<lparr>customInstructions := ci\<rparr>))"
      using valid by simp_all
    show ?thesis
      by (simp add: grade_hit [OF w k] r(5-7) f b2_def k)
  qed
  from any [of "customInstructions req2"] have this_one:
    "gradeSubmission e2 req2 ?s1 = (Response200 b2, record_call (find_call req1) ?s1)"
    by simp
  have "r \<in> set (store ?s1)
          \<and> row_repoName r = str_of (repoName req1) \<and> row_branchName r = str_of (branchName req1)
          \<and> student_column (js_or (studentName req1) JsNull) = Inr (row_studentName r)
          \<and> reviewContent r = JsonText v
          \<and> get_prop v ''results'' = Inr (results b1) \<and> get_prop v ''summary'' = Inr (summary b1)
          \<and> row_id r = reviewId b1
          \<and> (source b1 = ''openai'' \<longrightarrow> store ?s1 = store s @ [r])
          \<and> lookup e2 req2 ?s1 = Inr (Some r)
          \<and> b2 = \<lparr>source = ''database'',
                  student = js_or (map_option JsStr (row_studentName r)) (JsStr ''Unknown''),
                  branch = row_branchName r, repository = row_repoName r,
                  results = results b1, summary = summary b1, reviewId = row_id r,
                  resp_createdAt = createdAt r, timestamp = createdAt r\<rparr>
          \<and> gradeSubmission e2 req2 ?s1 = (Response200 b2, record_call (find_call req1) ?s1)
          \<and> new_calls e2 req2 ?s1 = [find_call req1]
          \<and> (\<forall>ci. lookup e2 (req2\<lparr>customInstructions := ci\<rparr>) ?s1 = Inr (Some r)
                \<and> gradeSubmission e2 (req2\<lparr>customInstructions := ci\<rparr>) ?s1
                   = (Response200 b2, record_call (find_call req1) ?s1))"
    using r lk new any this_one by (simp add: new_calls_def b2_def)
  then show ?thesis by blast
qed

theorem instructions_not_in_key_witness:
  "\<exists>b1 b2 r v. fst (gradeSubmission sample_env sample_req sample_state) = Response200 b1
     \<and> source b1 = ''openai'' \<and> results b1 = Some (results_json sample_grading)
     \<and> store (snd (gradeSubmission sample_env sample_req sample_state)) = [r]
     \<and> row_studentName r = Some ''alice'' \<and> reviewContent r = JsonText v
     \<and> get_prop v ''results'' = Inr (Some (results_json sample_grading))
     \<and> gradeSubmission sample_env
          (sample_req\<lparr>customInstructions := Some (JsStr ''grade for style only'')\<rparr>)
          (snd (gradeSubmission sample_env sample_req sample_state))
        = (Response200 b2,
           record_call (find_call sample_req) (snd (gradeSubmission sample_env sample_req sample_state)))
     \<and> gradeSubmission sample_env (sample_req\<lparr>customInstructions := None\<rparr>)
          (snd (gradeSubmission sample_env sample_req sample_state))
        = (Response200 b2,
           record_call (find_call sample_req) (snd (gradeSubmission sample_env sample_req sample_state)))
     \<and> source b2 = ''database'' \<and> results b2 = Some (results_json sample_grading)
     \<and> summary b2 = summary b1 \<and> reviewId b2 = row_id r \<and> reviewId b2 = reviewId b1"
proof -
  let ?s1 = "snd (gradeSubmission sample_env sample_req sample_state)"
  from sample_first_call obtain b1 where
    r1: "fst (gradeSubmission sample_env sample_req sample_state) = Response200 b1"
      "source b1 = ''openai''" "results b1 = Some (results_json sample_grading)"
    by blast
  have fe: "find_error sample_env = None" by (simp add: sample_env_def)
  have e: "store sample_state = []" by (simp add: sample_state_def)
  have sc: "student_column (js_or (studentName sample_req) JsNull) = Inr (Some ''alice'')"
    by code_simp
  from instructions_not_in_key [OF r1(1) refl refl refl fe] r1(2) obtain r v b2 where
    q: "student_column (js_or (studentName sample_req) JsNull) = Inr (row_studentName r)"
      "reviewContent r = JsonText v" "get_prop v ''results'' = Inr (results b1)"
      "row_id r = reviewId b1" "store ?s1 = store sample_state @ [r]"
      "b2 = \<lparr>source = ''database'',
                  student = js_or (map_option JsStr (row_studentName r)) (JsStr ''Unknown''),
                  branch = row_branchName r, repository = row_repoName r,
                  results = results b1, summary = summary b1, reviewId = row_id r,
                  resp_createdAt = createdAt r, timestamp = createdAt r\<rparr>"
    and a: "\<forall>ci. lookup sample_env (sample_req\<lparr>customInstructions := ci\<rparr>) ?s1 = Inr (Some r)
                \<and> gradeSubmission sample_env (sample_req\<lparr>customInstructions := ci\<rparr>) ?s1
                   = (Response200 b2, record_call (find_call sample_req) ?s1)"
    by blast
  from a have a1: "gradeSubmission sample_env
          (sample_req\<lparr>customInstructions := Some (JsStr ''grade for style only'')\<rparr>) ?s1
        = (Response200 b2, record_call (find_call sample_req) ?s1)"
    and a2: "gradeSubmission sample_env (sample_req\<lparr>customInstructions := None\<rparr>) ?s1
        = (Response200 b2, record_call (find_call sample_req) ?s1)"
    by blast+
  from q(1) sc have st: "row_studentName r = Some ''alice''" by simp
  have "fst (gradeSubmission sample_env sample_req sample_state) = Response200 b1
     \<and> source b1 = ''openai'' \<and> results b1 = Some (results_json sample_grading)
     \<and> store ?s1 = [r]
     \<and> row_studentName r = Some ''alice'' \<and> reviewContent r = JsonText v
     \<and> get_prop v ''results'' = Inr (Some (results_json sample_grading))
     \<and> gradeSubmission sample_env
          (sample_req\<lparr>customInstructions := Some (JsStr ''grade for style only'')\<rparr>) ?s1
        = (Response200 b2, record_call (find_call sample_req) ?s1)
     \<and> gradeSubmission sample_env (sample_req\<lparr>customInstructions := None\<rparr>) ?s1
        = (Response200 b2, record_call (find_call sample_req) ?s1)
     \<and> source b2 = ''database'' \<and> results b2 = Some (results_json sample_grading)
     \<and> summary b2 = summary b1 \<and> reviewId b2 = row_id r \<and> reviewId b2 = reviewId b1"
    using r1 q(2-5) e st a1 a2 by (simp add: q(6))
  then show ?thesis by blast
qed

subsection \<open>A falsy studentName\<close>

lemma openai_appends_row:
  assumes "fst (gradeSubmission e req s) = Response200 b" "source b = ''openai''"
  shows "\<exists>row. store (snd (gradeSubmission e req s)) = store s @ [row]
          \<and> student_column (js_or (studentName req) JsNull) = Inr (row_studentName row)
          \<and> row_repoName row = str_of (repoName req)
          \<and> row_branchName row = str_of (branchName req)"
proof (cases rule: grade_paths [where e = e and req = req and s = s])
  case logging
  with assms show ?thesis by (simp add: grade_logging)
next
  case repo
  with assms show ?thesis by (simp add: grade_invalid_repo)
next
  case branch
  with assms show ?thesis by (simp add: grade_invalid_branch)
next
  case (lookup_error x)
  with assms show ?thesis by (simp add: grade_lookup_fails)
next
  case (hit r)
  with assms show ?thesis by (auto simp: grade_hit split: sum.splits)
next
  case no_instr
  with assms show ?thesis by (simp add: grade_miss_instructions)
next
  case bad_url
  with assms show ?thesis by (simp add: grade_miss_url)
next
  case (clone_error msg)
  with assms show ?thesis by (simp add: grade_clone_fails)
next
  case (cloned p tree)
  obtain out s4 where pcg: "performCustomGrading e p (str_of (customInstructions req))
      (str_of (branchName req)) (cloned_state req p tree s) = (out, s4)"
    by (cases "performCustomGrading e p (str_of (customInstructions req))
      (str_of (branchName req)) (cloned_state req p tree s)") blast
  from pcg_state [OF pcg] have st4: "store s4 = store s" by simp
  from assms cloned pcg obtain g where g: "out = Inr g"
    by (cases out) (simp_all add: grade_cloned)
  from assms(1) cloned pcg g st4 show ?thesis
    by (auto simp: grade_cloned create_def Let_def split: sum.splits option.splits)
qed

lemma new_calls_shape:
  "\<forall>ev \<in> set (new_calls e req s).
     ev = find_call req \<or> ev = clone_call req
     \<or> (case ev of EvFindFirst r b k \<Rightarrow> False | EvClone r l b \<Rightarrow> False | _ \<Rightarrow> True)"
proof (cases "clonedPath e req s")
  case None
  from uncloned_outcome [OF None] show ?thesis by auto
next
  case (Some p)
  then obtain tree where r: "reaches_clone e req s" "clone_result e req = Inr (p, tree)"
    by (auto simp: clonedPath_eq split: if_splits sum.splits)
  from cloned_outcome [OF r] show ?thesis by auto
qed

text \<open>
  C9: a studentName that is falsy (the empty string, null, 0, false, or absent) is
  handled as an absent one: the invocation is the same as without studentName; the
  lookup is made with null for the student; the clone, when it is called, is called
  with the label "submission"; and the row that a new grading inserts has studentName
  null.
\<close>

theorem falsy_student:
  assumes "\<not> truthy v"
  shows "gradeSubmission e (req\<lparr>studentName := v\<rparr>) s = gradeSubmission e (req\<lparr>studentName := None\<rparr>) s
       \<and> lookup e (req\<lparr>studentName := v\<rparr>) s
           = findFirst e (str_of (repoName req)) (str_of (branchName req)) JsNull (store s)
       \<and> (\<forall>r b k. EvFindFirst r b k \<in> set (new_calls e (req\<lparr>studentName := v\<rparr>) s) \<longrightarrow> k = JsNull)
       \<and> (\<forall>r l b. EvClone r l b \<in> set (new_calls e (req\<lparr>studentName := v\<rparr>) s)
            \<longrightarrow> l = JsStr ''submission'')
       \<and> (\<forall>b. fst (gradeSubmission e (req\<lparr>studentName := v\<rparr>) s) = Response200 b
              \<and> source b = ''openai'' \<longrightarrow>
            (\<exists>row. store (snd (gradeSubmission e (req\<lparr>studentName := v\<rparr>) s)) = store s @ [row]
               \<and> row_studentName row = None))"
proof -
  have f: "js_or v d = d" "js_or None d = d" for d
    using assms by (simp_all add: js_or_falsy)
  have lt: "logging_throws (req\<lparr>studentName := v\<rparr>) = logging_throws (req\<lparr>studentName := None\<rparr>)"
    using assms by (cases v) (simp_all add: logging_throws_def shown_throws_def)
  have 1: "gradeSubmission e (req\<lparr>studentName := v\<rparr>) s = gradeSubmission e (req\<lparr>studentName := None\<rparr>) s"
    by (simp add: gradeSubmission_def try_block_def f lt
        cong: if_cong sum.case_cong option.case_cong prod.case_cong)
  have 2: "lookup e (req\<lparr>studentName := v\<rparr>) s
           = findFirst e (str_of (repoName req)) (str_of (branchName req)) JsNull (store s)"
    by (simp add: lookup_def f)
  have fc: "find_call (req\<lparr>studentName := v\<rparr>)
      = EvFindFirst (str_of (repoName req)) (str_of (branchName req)) JsNull"
    and cc: "clone_call (req\<lparr>studentName := v\<rparr>)
      = EvClone (str_of (repoName req)) (JsStr ''submission'') (str_of (branchName req))"
    by (simp_all add: find_call_def clone_call_def f)
  note sh = new_calls_shape [of e "req\<lparr>studentName := v\<rparr>" s]
  have 3: "\<forall>r b k. EvFindFirst r b k \<in> set (new_calls e (req\<lparr>studentName := v\<rparr>) s) \<longrightarrow> k = JsNull"
    using sh fc cc by fastforce
  have 4: "\<forall>r l b. EvClone r l b \<in> set (new_calls e (req\<lparr>studentName := v\<rparr>) s)
            \<longrightarrow> l = JsStr ''submission''"
    using sh fc cc by fastforce
  have 5: "\<exists>row. store (snd (gradeSubmission e (req\<lparr>studentName := v\<rparr>) s)) = store s @ [row]
               \<and> row_studentName row = None"
    if "fst (gradeSubmission e (req\<lparr>studentName := v\<rparr>) s) = Response200 b" "source b = ''openai''"
    for b
  proof -
    from openai_appends_row [OF that] obtain row where
      "store (snd (gradeSubmission e (req\<lparr>studentName := v\<rparr>) s)) = store s @ [row]"
      "student_column (js_or (studentName (req\<lparr>studentName := v\<rparr>)) JsNull) = Inr (row_studentName row)"
      by blast
    then show ?thesis by (auto simp: f)
  qed
  from 1 2 3 4 5 show ?thesis by blast
qed

theorem falsy_student_witness:
  "gradeSubmission sample_env (sample_req\<lparr>studentName := Some (JsStr [])\<rparr>) sample_state
     = gradeSubmission sample_env (sample_req\<lparr>studentName := None\<rparr>) sample_state
   \<and> gradeSubmission sample_env (sample_req\<lparr>studentName := Some (JsNum 0)\<rparr>) sample_state
     = gradeSubmission sample_env (sample_req\<lparr>studentName := None\<rparr>) sample_state
   \<and> (\<exists>row. store (snd (gradeSubmission sample_env
                 (sample_req\<lparr>studentName := Some (JsStr [])\<rparr>) sample_state)) = [row]
         \<and> row_studentName row = None)"
proof -
  have a: "\<not> truthy (Some (JsStr []))" "\<not> truthy (Some (JsNum 0))" by simp_all
  have "student_column (js_or (Some (JsStr [])) JsNull) = Inr None"
    by (simp add: js_or_def)
  from sample_run [OF this] obtain b where
    b: "fst (gradeSubmission sample_env (sample_req\<lparr>studentName := Some (JsStr [])\<rparr>) sample_state)
          = Response200 b" "source b = ''openai''"
    by blast
  have st: "store sample_state = []" by (simp add: sample_state_def)
  note t1 = falsy_student [OF a(1), of sample_env sample_req sample_state]
  note t2 = falsy_student [OF a(2), of sample_env sample_req sample_state]
  from t1 b st have "\<exists>row. store (snd (gradeSubmission sample_env
                 (sample_req\<lparr>studentName := Some (JsStr [])\<rparr>) sample_state)) = [row]
         \<and> row_studentName row = None"
    by auto
  with t1 t2 show ?thesis by blast
qed


subsection \<open>Rejected requests\<close>

text \<open>
  When the logging of the request does not throw, the response is a 400 exactly when
  repoName or branchName fails the test of step 1, or the lookup found no record and the
  instructions fail their test or the URL test rejects repoName; a 400 leaves the store
  and the workspaces as they were and has made at most the lookup call; and the
  rejections of step 1 are made before any call.
\<close>

lemma status_400_iff:
  assumes "\<not> logging_throws req"
  shows "(status (fst (gradeSubmission e req s)) = 400) =
     (\<not> valid_name (repoName req) \<or> \<not> valid_name (branchName req)
      \<or> (lookup e req s = Inr None
          \<and> (\<not> valid_instructions (customInstructions req)
              \<or> \<not> isValidGitHubUrl e (str_of (repoName req)))))
   \<and> (status (fst (gradeSubmission e req s)) = 400 \<longrightarrow>
        \<not> success (fst (gradeSubmission e req s))
        \<and> store (snd (gradeSubmission e req s)) = store s
        \<and> workspaces (snd (gradeSubmission e req s)) = workspaces s
        \<and> (new_calls e req s = [] \<or> new_calls e req s = [find_call req]))
   \<and> (\<not> valid_name (repoName req) \<longrightarrow>
        gradeSubmission e req s = (Response400 ''Invalid or missing repoName'', s))
   \<and> (valid_name (repoName req) \<and> \<not> valid_name (branchName req) \<longrightarrow>
        gradeSubmission e req s = (Response400 ''Invalid or missing branchName (Module)'', s))"
proof (cases rule: grade_paths [where e = e and req = req and s = s])
  case logging
  with assms show ?thesis by simp
next
  case repo
  then show ?thesis by (simp add: grade_invalid_repo new_calls_def)
next
  case branch
  then show ?thesis by (simp add: grade_invalid_branch new_calls_def)
next
  case (lookup_error x)
  then show ?thesis by (simp add: grade_lookup_fails new_calls_def)
next
  case (hit r)
  then show ?thesis by (simp add: grade_hit new_calls_def split: sum.splits)
next
  case no_instr
  then show ?thesis by (simp add: grade_miss_instructions new_calls_def)
next
  case bad_url
  then show ?thesis by (simp add: grade_miss_url new_calls_def)
next
  case (clone_error msg)
  then show ?thesis by (simp add: grade_clone_fails new_calls_def reaches_clone_def)
next
  case (cloned p tree)
  from cloned_outcome [OF cloned] have "status (fst (gradeSubmission e req s)) \<noteq> 400" by blast
  with cloned show ?thesis by (simp add: reaches_clone_def)
qed

text \<open>
  C4: a request whose repoName is malformed should be answered 400 by the test of step 1,
  with no side effect. The handler does not do so for every such request: a repoName
  that is a JSON object with an own member \<^verbatim>\<open>toString\<close> is not a string, so it
  fails the test of step 1, but the line that logs the request converts it to a string
  first, the conversion throws a TypeError inside the \<^verbatim>\<open>try\<close> block, and the
  response is the 500 of the \<^verbatim>\<open>catch\<close> block (no call is made and the state is
  as before). The same request with the number 5 for repoName is answered 400. A
  branchName that is an array holding such an object is answered 500 in the same way.
\<close>

theorem logging_precedes_validation:
  "is_string (repoName hostile_req) = False
   \<and> gradeSubmission sample_env hostile_req sample_state
       = (Response500 TypeError 7, sample_state)
   \<and> status (fst (gradeSubmission sample_env hostile_req sample_state)) = 500
   \<and> status (fst (gradeSubmission sample_env (sample_req\<lparr>repoName := Some (JsNum 5)\<rparr>)
         sample_state)) = 400
   \<and> is_string (Some (JsArr [JsObj [(''toString'', JsNum 1)]])) = False
   \<and> gradeSubmission sample_env
        (sample_req\<lparr>branchName := Some (JsArr [JsObj [(''toString'', JsNum 1)]])\<rparr>) sample_state
       = (Response500 TypeError 7, sample_state)"
proof -
  have t: "logging_throws hostile_req"
    "logging_throws (sample_req\<lparr>branchName := Some (JsArr [JsObj [(''toString'', JsNum 1)]])\<rparr>)"
    by (simp_all add: hostile_req_def sample_req_def logging_throws_def shown_throws_def)
  have n: "now sample_env = 7" by (simp add: sample_env_def)
  have f: "\<not> logging_throws (sample_req\<lparr>repoName := Some (JsNum 5)\<rparr>)"
    by (simp add: sample_req_def logging_throws_def shown_throws_def)
  have v: "\<not> valid_name (repoName (sample_req\<lparr>repoName := Some (JsNum 5)\<rparr>))"
    by (simp add: valid_name_def)
  show ?thesis
    by (simp add: grade_logging [OF t(1)] grade_logging [OF t(2)] n grade_invalid_repo [OF f v])
      (simp add: hostile_req_def)
qed

end
